theory Spec2Isabelle
  imports Complex_Main
begin

section \<open>Python values shared by both integrations\<close>

text \<open>
  Exceptions are values. Only the exception classes that the two integrations raise,
  catch or let through are listed; each carries its message where the code formats one.
  \<open>UpnpError\<close> is the device library's protocol error, \<open>TimeoutError\<close> stands
  for \<open>asyncio.TimeoutError\<close> and \<open>ClientError\<close> for \<open>aiohttp.ClientError\<close>.
\<close>

datatype error =
    Unresolvable string
  | BrowseError string
  | UpnpError string
  | TimeoutError
  | ClientError
  | KeyError string
  | ValueError string
  | TypeError string
  | AttributeError string
  | OSError string

text \<open>
  \<open>str.split(sep)\<close> with a one-character separator and no limit: the text is cut at
  every separator, empty pieces are kept, and the result is never empty
  (\<open>"".split("/") == [""]\<close>). The accumulator holds the current piece, reversed.
\<close>

fun split_acc :: "char \<Rightarrow> string \<Rightarrow> string \<Rightarrow> string list" where
  "split_acc sep acc [] = [rev acc]"
| "split_acc sep acc (x # xs) =
     (if x = sep then rev acc # split_acc sep [] xs else split_acc sep (x # acc) xs)"

definition split :: "char \<Rightarrow> string \<Rightarrow> string list" where
  "split sep s = split_acc sep [] s"

text \<open>
  \<open>str.split(sep, maxsplit)\<close>: at most \<open>maxsplit\<close> cuts, from the left; what is left
  after the last cut is the final piece, separators included.
\<close>

fun splitn_acc :: "char \<Rightarrow> nat \<Rightarrow> string \<Rightarrow> string \<Rightarrow> string list" where
  "splitn_acc sep n acc [] = [rev acc]"
| "splitn_acc sep 0 acc (x # xs) = [rev acc @ x # xs]"
| "splitn_acc sep (Suc n) acc (x # xs) =
     (if x = sep then rev acc # splitn_acc sep n [] xs
      else splitn_acc sep (Suc n) (x # acc) xs)"

definition splitn :: "char \<Rightarrow> nat \<Rightarrow> string \<Rightarrow> string list" where
  "splitn sep n s = splitn_acc sep n [] s"

section \<open>DLNA media server: constants (\<open>dlna_dms/const.py\<close>)\<close>

definition ROOT_OBJECT_ID :: string where
  "ROOT_OBJECT_ID = ''0''"

definition ACTION_OBJECT :: string where
  "ACTION_OBJECT = ''object''"

definition ACTION_PATH :: string where
  "ACTION_PATH = ''path''"

definition ACTION_SEARCH :: string where
  "ACTION_SEARCH = ''search''"

definition PATH_SEP :: char where
  "PATH_SEP = CHR ''/''"

definition DLNA_BROWSE_FILTER :: "string list" where
  "DLNA_BROWSE_FILTER =
     [''id'', ''upnp:class'', ''dc:title'', ''res'', ''@childCount'', ''upnp:albumArtURI'']"

definition DLNA_RESOLVE_FILTER :: "string list" where
  "DLNA_RESOLVE_FILTER = [''id'', ''upnp:class'', ''res'']"

definition DLNA_SORT_CRITERIA :: "string list" where
  "DLNA_SORT_CRITERIA = [''+upnp:class'', ''+upnp:originalTrackNumber'', ''+dc:title'']"

section \<open>Media identifiers (\<open>async_parse_identifier\<close>)\<close>

text \<open>
  The identifier of a \<open>MediaSourceItem\<close> is a string. The result is the triple
  (server, action, parameters), or the \<open>BrowseError\<close> the function raises.
\<close>

definition async_parse_identifier :: "string \<Rightarrow> error + (string \<times> string \<times> string)" where
  "async_parse_identifier identifier =
     (if identifier = [] then Inr ([], [], [])
      else
        let parts = splitn (CHR ''/'') 2 identifier in
        if length parts = 1 then Inr (parts ! 0, [], [])
        else if length parts = 2 then Inl (BrowseError ''Invalid parameters'')
        else
          let server_id = parts ! 0; action = parts ! 1; parameters = parts ! 2 in
          if action \<in> set [ACTION_OBJECT, ACTION_PATH, ACTION_SEARCH]
          then Inr (server_id, action, parameters)
          else Inl (BrowseError ''Invalid action''))"

section \<open>DIDL-Lite objects and the media-server device\<close>

text \<open>
  A resource of a DIDL-Lite object: both attributes may be \<open>None\<close>.
\<close>

record resource =
  uri :: "string option"
  protocol_info :: "string option"

text \<open>
  An optional attribute of a DIDL-Lite object as Python sees it: the object may have no
  such attribute at all (reading it raises \<open>AttributeError\<close>, \<open>hasattr\<close> is false),
  or the attribute exists and holds \<open>None\<close> (the library's default for a property that
  the device left out), or it holds the text the device sent.
\<close>

datatype py_attr = AttrMissing | AttrNone | AttrStr string

text \<open>The classes of \<open>didl_lite\<close>: what \<open>type(item)\<close> can be.\<close>

datatype didl_class =
    DidlObject | Item | ImageItem | Photo | AudioItem | MusicTrack | AudioBroadcast
  | AudioBook | VideoItem | Movie | VideoBroadcast | MusicVideoClip | PlaylistItem
  | TextItem | BookmarkItem | EpgItem | AudioProgram | VideoProgram | Container
  | Person | MusicArtist | PlaylistContainer | Album | MusicAlbum | PhotoAlbum
  | Genre | MusicGenre | MovieGenre | ChannelGroup | AudioChannelGroup
  | VideoChannelGroup | EpgContainer | StorageSystem | StorageVolume | StorageFolder
  | BookmarkFolder

record didl_object =
  item_type :: didl_class
  item_id :: string
  upnp_class :: string
  item_title :: string
  child_count :: py_attr
  res :: "resource list"
  album_art_uri :: py_attr

text \<open>
  A \<open>DmsDevice\<close>: its name and icon, the three ContentDirectory requests the integration
  sends (each answers with a result or raises), and \<open>get_absolute_url\<close>. The metadata
  filter and the sort criteria are passed as the code passes them.
\<close>

record dms_device =
  device_name :: string
  device_icon :: "string option"
  async_browse_metadata :: "string \<Rightarrow> string list \<Rightarrow> error + didl_object"
  async_browse_direct_children ::
    "string \<Rightarrow> string list \<Rightarrow> string list \<Rightarrow> error + didl_object list"
  async_search_directory :: "string \<Rightarrow> string \<Rightarrow> string list \<Rightarrow> error + didl_object list"
  get_absolute_url :: "string option \<Rightarrow> string"

text \<open>The requests sent to a device, in order: every function below returns them.\<close>

datatype dms_call =
    BrowseMetadata string "string list"
  | BrowseDirectChildren string "string list" "string list"
  | SearchDirectory string string "string list"

text \<open>
  \<open>DlnaDmsSource.sources\<close>: a dictionary from server name to device, in insertion
  order.
\<close>

type_synonym sources = "(string \<times> dms_device) list"

datatype play_media = PlayMedia (url: string) (mime_type: string)

section \<open>Resolving an object (\<open>_async_resolve_object\<close>, \<open>_resource_mime_type\<close>)\<close>

definition resource_mime_type :: "resource \<Rightarrow> string option" where
  "resource_mime_type resource =
     (case protocol_info resource of
        None \<Rightarrow> None
      | Some info \<Rightarrow>
          let fields = split (CHR '':'') info in
          if 2 < length fields then Some (fields ! 2) else None)"

text \<open>Python truth of an optional string: \<open>None\<close> and the empty string are false.\<close>

definition truthy :: "string option \<Rightarrow> bool" where
  "truthy v = (case v of None \<Rightarrow> False | Some s \<Rightarrow> s \<noteq> [])"

definition async_resolve_object ::
  "dms_device \<Rightarrow> string \<Rightarrow> (error + play_media) \<times> dms_call list" where
  "async_resolve_object device object_id =
     (let calls = [BrowseMetadata object_id DLNA_RESOLVE_FILTER] in
      case async_browse_metadata device object_id DLNA_RESOLVE_FILTER of
        Inl (UpnpError err) \<Rightarrow>
          (Inl (Unresolvable (''Invalid object or server: '' @ err)), calls)
      | Inl e \<Rightarrow> (Inl e, calls)
      | Inr item \<Rightarrow>
          (case res item of
             [] \<Rightarrow> (Inl (Unresolvable ''Object has no resources''), calls)
           | resource # _ \<Rightarrow>
               let mime = resource_mime_type resource in
               if \<not> truthy (uri resource) \<or> \<not> truthy mime
               then (Inl (Unresolvable ''Object resource has no URI or MIME type''), calls)
               else (Inr (PlayMedia (get_absolute_url device (uri resource)) (the mime)),
                     calls)))"

section \<open>Resolving a path (\<open>_async_resolve_path\<close>)\<close>

definition DQUOTE :: char where
  "DQUOTE = CHR 0x22"

text \<open>
  The criteria of one step, the f-string
  \<^verbatim>\<open>@parentID="{object_id}" and dc:title="{node}"\<close>.
\<close>

definition path_criteria :: "string \<Rightarrow> string \<Rightarrow> string" where
  "path_criteria object_id node =
     ''@parentID='' @ [DQUOTE] @ object_id @ [DQUOTE]
       @ '' and dc:title='' @ [DQUOTE] @ node @ [DQUOTE]"

text \<open>
  The \<open>for\<close> loop over the path's nodes, with the current \<open>object_id\<close> as its state.
  A raise ends the loop; the requests sent so far are returned with it.
\<close>

fun resolve_path_loop ::
  "dms_device \<Rightarrow> string \<Rightarrow> string \<Rightarrow> string list \<Rightarrow> (error + string) \<times> dms_call list" where
  "resolve_path_loop device path object_id [] = (Inr object_id, [])"
| "resolve_path_loop device path object_id (node # nodes) =
     (let criteria = path_criteria object_id node;
          call = SearchDirectory object_id criteria DLNA_BROWSE_FILTER in
      case async_search_directory device object_id criteria DLNA_BROWSE_FILTER of
        Inl (UpnpError err) \<Rightarrow> (Inl (Unresolvable (''Path search failed: '' @ err)), [call])
      | Inl e \<Rightarrow> (Inl e, [call])
      | Inr items \<Rightarrow>
          if items = []
          then (Inl (Unresolvable (''Nothing found for '' @ node @ '' in '' @ path)), [call])
          else if 1 < length items
          then (Inl (Unresolvable (''Too many items found for '' @ node @ '' in '' @ path)),
                [call])
          else
            (let (r, calls) = resolve_path_loop device path (item_id (items ! 0)) nodes
             in (r, call # calls)))"

definition async_resolve_path ::
  "dms_device \<Rightarrow> string \<Rightarrow> (error + string) \<times> dms_call list" where
  "async_resolve_path device path =
     resolve_path_loop device path ROOT_OBJECT_ID (split PATH_SEP path)"

section \<open>Resolving a media item (\<open>DlnaDmsSource.async_resolve_media\<close>)\<close>

text \<open>
  \<open>_async_resolve_search\<close> is called for the \<open>search\<close> action but the class defines no
  such method: the attribute lookup raises \<open>AttributeError\<close>. \<open>next(iter(sources))\<close>
  is the first key; it is only reached with a non-empty dictionary.
\<close>

definition async_resolve_media ::
  "sources \<Rightarrow> string \<Rightarrow> (error + play_media) \<times> dms_call list" where
  "async_resolve_media sources identifier =
     (if sources = [] then (Inl (Unresolvable ''No servers available''), [])
      else
        case async_parse_identifier identifier of
          Inl e \<Rightarrow> (Inl e, [])
        | Inr (parsed_id, action, parameters) \<Rightarrow>
            let server_id = (if parsed_id = [] then fst (hd sources) else parsed_id) in
            case map_of sources server_id of
              None \<Rightarrow> (Inl (Unresolvable ''Unknown server''), [])
            | Some device \<Rightarrow>
                if action = ACTION_SEARCH
                then (Inl (AttributeError ''_async_resolve_search''), [])
                else if action = ACTION_OBJECT
                then async_resolve_object device parameters
                else if action = ACTION_PATH
                then
                  (case async_resolve_path device parameters of
                     (Inl e, calls) \<Rightarrow> (Inl e, calls)
                   | (Inr object_id, calls) \<Rightarrow>
                       (let (r, calls') = async_resolve_object device object_id
                        in (r, calls @ calls')))
                else (Inl (Unresolvable (''Invalid identifier '' @ identifier)), []))"

section \<open>Browse nodes and the class tables (\<open>const.py\<close>)\<close>

text \<open>
  The media-player constants of the host that the two tables refer to. Their string
  values are the host's and are not needed here, so each constant is a name.
\<close>

datatype mp_const =
    MEDIA_CLASS_URL | MEDIA_CLASS_IMAGE | MEDIA_CLASS_MUSIC | MEDIA_CLASS_PODCAST
  | MEDIA_CLASS_VIDEO | MEDIA_CLASS_MOVIE | MEDIA_CLASS_TV_SHOW | MEDIA_CLASS_TRACK
  | MEDIA_CLASS_EPISODE | MEDIA_CLASS_DIRECTORY | MEDIA_CLASS_ARTIST
  | MEDIA_CLASS_PLAYLIST | MEDIA_CLASS_ALBUM | MEDIA_CLASS_GENRE | MEDIA_CLASS_CHANNEL
  | MEDIA_TYPE_CHANNELS | MEDIA_TYPE_URL | MEDIA_TYPE_IMAGE | MEDIA_TYPE_MUSIC
  | MEDIA_TYPE_PODCAST | MEDIA_TYPE_VIDEO | MEDIA_TYPE_MOVIE | MEDIA_TYPE_PLAYLIST
  | MEDIA_TYPE_EPISODE | MEDIA_TYPE_ARTIST | MEDIA_TYPE_ALBUM | MEDIA_TYPE_GENRE
  | MEDIA_TYPE_TVSHOW

definition DOMAIN :: string where
  "DOMAIN = ''dlna_dms''"

definition MEDIA_CLASS_MAP :: "(didl_class \<times> mp_const) list" where
  "MEDIA_CLASS_MAP =
     [(DidlObject, MEDIA_CLASS_URL), (Item, MEDIA_CLASS_URL),
      (ImageItem, MEDIA_CLASS_IMAGE), (Photo, MEDIA_CLASS_IMAGE),
      (AudioItem, MEDIA_CLASS_MUSIC), (MusicTrack, MEDIA_CLASS_MUSIC),
      (AudioBroadcast, MEDIA_CLASS_MUSIC), (AudioBook, MEDIA_CLASS_PODCAST),
      (VideoItem, MEDIA_CLASS_VIDEO), (Movie, MEDIA_CLASS_MOVIE),
      (VideoBroadcast, MEDIA_CLASS_TV_SHOW), (MusicVideoClip, MEDIA_CLASS_VIDEO),
      (PlaylistItem, MEDIA_CLASS_TRACK), (TextItem, MEDIA_CLASS_URL),
      (BookmarkItem, MEDIA_CLASS_URL), (EpgItem, MEDIA_CLASS_EPISODE),
      (AudioProgram, MEDIA_CLASS_MUSIC), (VideoProgram, MEDIA_CLASS_VIDEO),
      (Container, MEDIA_CLASS_DIRECTORY), (Person, MEDIA_CLASS_ARTIST),
      (MusicArtist, MEDIA_CLASS_ARTIST), (PlaylistContainer, MEDIA_CLASS_PLAYLIST),
      (Album, MEDIA_CLASS_ALBUM), (MusicAlbum, MEDIA_CLASS_ALBUM),
      (PhotoAlbum, MEDIA_CLASS_ALBUM), (Genre, MEDIA_CLASS_GENRE),
      (MusicGenre, MEDIA_CLASS_GENRE), (MovieGenre, MEDIA_CLASS_GENRE),
      (ChannelGroup, MEDIA_CLASS_CHANNEL), (AudioChannelGroup, MEDIA_TYPE_CHANNELS),
      (VideoChannelGroup, MEDIA_TYPE_CHANNELS), (EpgContainer, MEDIA_CLASS_DIRECTORY),
      (StorageSystem, MEDIA_CLASS_DIRECTORY), (StorageVolume, MEDIA_CLASS_DIRECTORY),
      (StorageFolder, MEDIA_CLASS_DIRECTORY), (BookmarkFolder, MEDIA_CLASS_DIRECTORY)]"

definition MEDIA_TYPE_MAP :: "(string \<times> mp_const) list" where
  "MEDIA_TYPE_MAP =
     [(''object'', MEDIA_TYPE_URL),
      (''object.item'', MEDIA_TYPE_URL),
      (''object.item.imageItem'', MEDIA_TYPE_IMAGE),
      (''object.item.imageItem.photo'', MEDIA_TYPE_IMAGE),
      (''object.item.audioItem'', MEDIA_TYPE_MUSIC),
      (''object.item.audioItem.musicTrack'', MEDIA_TYPE_MUSIC),
      (''object.item.audioItem.audioBroadcast'', MEDIA_TYPE_MUSIC),
      (''object.item.audioItem.audioBook'', MEDIA_TYPE_PODCAST),
      (''object.item.videoItem'', MEDIA_TYPE_VIDEO),
      (''object.item.videoItem.movie'', MEDIA_TYPE_MOVIE),
      (''object.item.videoItem.videoBroadcast'', MEDIA_TYPE_VIDEO),
      (''object.item.videoItem.musicVideoClip'', MEDIA_TYPE_VIDEO),
      (''object.item.playlistItem'', MEDIA_TYPE_PLAYLIST),
      (''object.item.textItem'', MEDIA_TYPE_URL),
      (''object.item.bookmarkItem'', MEDIA_TYPE_URL),
      (''object.item.epgItem'', MEDIA_TYPE_EPISODE),
      (''object.item.epgItem.audioProgram'', MEDIA_TYPE_EPISODE),
      (''object.item.epgItem.videoProgram'', MEDIA_TYPE_EPISODE),
      (''object.container'', MEDIA_TYPE_PLAYLIST),
      (''object.container.person'', MEDIA_TYPE_ARTIST),
      (''object.container.person.musicArtist'', MEDIA_TYPE_ARTIST),
      (''object.container.playlistContainer'', MEDIA_TYPE_PLAYLIST),
      (''object.container.album'', MEDIA_TYPE_ALBUM),
      (''object.container.album.musicAlbum'', MEDIA_TYPE_ALBUM),
      (''object.container.album.photoAlbum'', MEDIA_TYPE_ALBUM),
      (''object.container.genre'', MEDIA_TYPE_GENRE),
      (''object.container.genre.musicGenre'', MEDIA_TYPE_GENRE),
      (''object.container.genre.movieGenre'', MEDIA_TYPE_GENRE),
      (''object.container.channelGroup'', MEDIA_TYPE_CHANNELS),
      (''object.container.channelGroup.audioChannelGroup'', MEDIA_TYPE_CHANNELS),
      (''object.container.channelGroup.videoChannelGroup'', MEDIA_TYPE_CHANNELS),
      (''object.container.epgContainer'', MEDIA_TYPE_TVSHOW),
      (''object.container.storageSystem'', MEDIA_TYPE_PLAYLIST),
      (''object.container.storageVolume'', MEDIA_TYPE_PLAYLIST),
      (''object.container.storageFolder'', MEDIA_TYPE_PLAYLIST),
      (''object.container.bookmarkFolder'', MEDIA_TYPE_PLAYLIST)]"

text \<open>
  \<open>BrowseMediaSource\<close>, with the keyword arguments of its constructor as fields.
  \<open>children_media_class\<close> is \<open>None\<close> unless it is passed or computed.
\<close>

datatype browse_media_source = BrowseMediaSource
  (domain: string)
  (node_identifier: string)
  (media_class: mp_const)
  (media_content_type: "mp_const option")
  (title: string)
  (can_play_media: bool)
  (can_expand: bool)
  (children: "browse_media_source list option")
  (children_media_class: "mp_const option")
  (thumbnail: "string option")

text \<open>
  What the projection takes from outside the integration: Python's \<open>int\<close> on a string
  (\<open>None\<close> where it raises \<open>ValueError\<close>), and the value that the host's
  \<open>calculate_children_class\<close> stores in \<open>children_media_class\<close>.
\<close>

record host =
  py_int :: "string \<Rightarrow> int option"
  calculate_children_class :: "browse_media_source \<Rightarrow> mp_const option"

section \<open>Projecting a DIDL-Lite object (\<open>_didl_to_media_source\<close>, \<open>_didl_image_url\<close>)\<close>

definition startswith :: "string \<Rightarrow> string \<Rightarrow> bool" where
  "startswith s prefix = (take (length prefix) s = prefix)"

fun image_resource_url :: "dms_device \<Rightarrow> resource list \<Rightarrow> error + string option" where
  "image_resource_url device [] = Inr None"
| "image_resource_url device (resource # rest) =
     (case protocol_info resource of
        None \<Rightarrow> Inl (AttributeError ''startswith'')
      | Some info \<Rightarrow>
          if startswith info ''http-get:*:image/''
          then Inr (Some (get_absolute_url device (uri resource)))
          else image_resource_url device rest)"

definition didl_image_url :: "sources \<Rightarrow> string \<Rightarrow> didl_object \<Rightarrow> error + string option" where
  "didl_image_url sources server_id item =
     (case map_of sources server_id of
        None \<Rightarrow> Inl (KeyError server_id)
      | Some device \<Rightarrow>
          (case album_art_uri item of
             AttrNone \<Rightarrow> Inr (Some (get_absolute_url device None))
           | AttrStr art \<Rightarrow> Inr (Some (get_absolute_url device (Some art)))
           | AttrMissing \<Rightarrow> image_resource_url device (res item)))"

text \<open>
  \<open>int(item.child_count)\<close> inside \<open>try ... except (AttributeError, ValueError)\<close>:
  a missing attribute and an unparseable text give 0, and the \<open>TypeError\<close> of
  \<open>int(None)\<close> is not among the exceptions caught.
\<close>

definition item_child_count :: "host \<Rightarrow> didl_object \<Rightarrow> error + int" where
  "item_child_count h item =
     (case child_count item of
        AttrMissing \<Rightarrow> Inr 0
      | AttrNone \<Rightarrow> Inl (TypeError ''int() argument must be a string or a number'')
      | AttrStr text \<Rightarrow> (case py_int h text of None \<Rightarrow> Inr 0 | Some n \<Rightarrow> Inr n))"

definition lookup :: "('k \<times> 'v) list \<Rightarrow> 'k \<Rightarrow> string \<Rightarrow> error + 'v" where
  "lookup table key shown = (case map_of table key of None \<Rightarrow> Inl (KeyError shown) | Some v \<Rightarrow> Inr v)"

text \<open>
  The body of \<open>_didl_to_media_source\<close> from the child count on, given the children
  already projected (\<open>None\<close> when there are none).
\<close>

definition didl_to_node ::
  "host \<Rightarrow> sources \<Rightarrow> string \<Rightarrow> didl_object \<Rightarrow> browse_media_source list option
     \<Rightarrow> error + browse_media_source" where
  "didl_to_node h sources server_id item projected =
     (case item_child_count h item of
        Inl e \<Rightarrow> Inl e
      | Inr count \<Rightarrow>
          let expand = ((case projected of None \<Rightarrow> False | Some cs \<Rightarrow> cs \<noteq> []) \<or> 0 < count) in
          case lookup MEDIA_CLASS_MAP (item_type item) ''type(item)'' of
            Inl e \<Rightarrow> Inl e
          | Inr cls \<Rightarrow>
              (case lookup MEDIA_TYPE_MAP (upnp_class item) (upnp_class item) of
                 Inl e \<Rightarrow> Inl e
               | Inr content_type \<Rightarrow>
                   (case didl_image_url sources server_id item of
                      Inl e \<Rightarrow> Inl e
                    | Inr thumb \<Rightarrow>
                        let media_source =
                              BrowseMediaSource DOMAIN (server_id @ ''/object/'' @ item_id item)
                                cls (Some content_type) (item_title item) (res item \<noteq> [])
                                expand projected None thumb
                        in Inr (case media_source of
                                  BrowseMediaSource d i c t n p e ch _ th \<Rightarrow>
                                    BrowseMediaSource d i c t n p e ch
                                      (calculate_children_class h media_source) th))))"

text \<open>The list comprehension over the children: the first raise ends it.\<close>

fun project_children ::
  "host \<Rightarrow> sources \<Rightarrow> string \<Rightarrow> didl_object list \<Rightarrow> error + browse_media_source list" where
  "project_children h sources server_id [] = Inr []"
| "project_children h sources server_id (child # rest) =
     (case didl_to_node h sources server_id child None of
        Inl e \<Rightarrow> Inl e
      | Inr node \<Rightarrow>
          (case project_children h sources server_id rest of
             Inl e \<Rightarrow> Inl e
           | Inr nodes \<Rightarrow> Inr (node # nodes)))"

text \<open>
  \<open>_didl_to_media_source(server_id, item, children)\<close>. A child is projected by the same
  function with no children of its own, so the recursion is one level deep.
\<close>

definition didl_to_media_source ::
  "host \<Rightarrow> sources \<Rightarrow> string \<Rightarrow> didl_object \<Rightarrow> didl_object list option
     \<Rightarrow> error + browse_media_source" where
  "didl_to_media_source h sources server_id item item_children =
     (case item_children of
        Some (c # cs) \<Rightarrow>
          (case project_children h sources server_id (c # cs) of
             Inl e \<Rightarrow> Inl e
           | Inr nodes \<Rightarrow> didl_to_node h sources server_id item (Some nodes))
      | _ \<Rightarrow> didl_to_node h sources server_id item None)"

section \<open>Browsing (\<open>_async_browse_object\<close>, \<open>DlnaDmsSource.async_browse_media\<close>)\<close>

definition async_browse_object ::
  "host \<Rightarrow> sources \<Rightarrow> string \<Rightarrow> string \<Rightarrow> (error + browse_media_source) \<times> dms_call list" where
  "async_browse_object h sources server_id object_id =
     (case map_of sources server_id of
        None \<Rightarrow> (Inl (KeyError server_id), [])
      | Some device \<Rightarrow>
          let call1 = BrowseMetadata object_id DLNA_BROWSE_FILTER;
              call2 = BrowseDirectChildren object_id DLNA_BROWSE_FILTER DLNA_SORT_CRITERIA in
          case async_browse_metadata device object_id DLNA_BROWSE_FILTER of
            Inl (UpnpError err) \<Rightarrow>
              (Inl (BrowseError (''Invalid object or server: '' @ err)), [call1])
          | Inl e \<Rightarrow> (Inl e, [call1])
          | Inr base_object \<Rightarrow>
              (case async_browse_direct_children device object_id
                      DLNA_BROWSE_FILTER DLNA_SORT_CRITERIA of
                 Inl (UpnpError err) \<Rightarrow>
                   (Inl (BrowseError (''Invalid object or server: '' @ err)), [call1, call2])
               | Inl e \<Rightarrow> (Inl e, [call1, call2])
               | Inr child_objects \<Rightarrow>
                   (didl_to_media_source h sources server_id base_object (Some child_objects),
                    [call1, call2])))"

text \<open>
  Unpacking a string into two names, as \<open>for server_id, device in self.sources\<close> does
  with each key of the dictionary: a string of two characters gives its two characters,
  any other length raises \<open>ValueError\<close>.
\<close>

definition unpack_pair :: "string \<Rightarrow> error + (string \<times> string)" where
  "unpack_pair key =
     (if length key = 2 then Inr ([key ! 0], [key ! 1])
      else if 2 < length key then Inl (ValueError ''too many values to unpack (expected 2)'')
      else if length key = 1
      then Inl (ValueError ''not enough values to unpack (expected 2, got 1)'')
      else Inl (ValueError ''not enough values to unpack (expected 2, got 0)''))"

text \<open>Reading an attribute that \<open>str\<close> does not have.\<close>

definition str_getattr :: "string \<Rightarrow> string \<Rightarrow> error + string" where
  "str_getattr obj attr = Inl (AttributeError (''str object has no attribute '' @ attr))"

text \<open>
  The comprehension that builds the children of the root node. It iterates over the
  dictionary itself, that is over its keys.
\<close>

fun server_nodes :: "string list \<Rightarrow> error + browse_media_source list" where
  "server_nodes [] = Inr []"
| "server_nodes (key # keys) =
     (case unpack_pair key of
        Inl e \<Rightarrow> Inl e
      | Inr (server_id, device) \<Rightarrow>
          (case str_getattr device ''name'' of
             Inl e \<Rightarrow> Inl e
           | Inr name \<Rightarrow>
               (case str_getattr device ''icon'' of
                  Inl e \<Rightarrow> Inl e
                | Inr icon \<Rightarrow>
                    (case server_nodes keys of
                       Inl e \<Rightarrow> Inl e
                     | Inr nodes \<Rightarrow>
                         Inr (BrowseMediaSource DOMAIN (server_id @ ''/object/'' @ ROOT_OBJECT_ID)
                                MEDIA_CLASS_DIRECTORY None name False True None
                                (Some MEDIA_CLASS_DIRECTORY) (Some icon) # nodes)))))"

text \<open>
  The root node \<open>base\<close> with its children. \<open>async_browse_media\<close> builds it and
  goes on without returning it, so only a raise while building it is seen.
\<close>

definition root_node :: "sources \<Rightarrow> error + browse_media_source" where
  "root_node sources =
     (case server_nodes (map fst sources) of
        Inl e \<Rightarrow> Inl e
      | Inr nodes \<Rightarrow>
          Inr (BrowseMediaSource DOMAIN [] MEDIA_CLASS_DIRECTORY None ''DLNA Server''
                 False True (Some nodes) (Some MEDIA_CLASS_DIRECTORY) None))"

definition async_browse_media ::
  "host \<Rightarrow> sources \<Rightarrow> string \<Rightarrow> (error + browse_media_source) \<times> dms_call list" where
  "async_browse_media h sources ident =
     (if sources = [] then (Inl (BrowseError ''No servers available''), [])
      else
        case async_parse_identifier ident of
          Inl e \<Rightarrow> (Inl e, [])
        | Inr (parsed_id, action, parameters) \<Rightarrow>
            (case (if parsed_id = [] \<and> action = [] \<and> 1 < length sources
                   then (case root_node sources of Inl e \<Rightarrow> Some e | Inr base \<Rightarrow> None)
                   else None) of
               Some e \<Rightarrow> (Inl e, [])
             | None \<Rightarrow>
                 if action = ACTION_SEARCH
                 then (Inl (AttributeError ''_async_browse_search''), [])
                 else
                   let server_id = (if parsed_id = [] then fst (hd sources) else parsed_id) in
                   if map_of sources server_id = None
                   then (Inl (BrowseError ''Unknown server''), [])
                   else if action = []
                   then
                     (case async_browse_object h sources server_id ROOT_OBJECT_ID of
                        (Inl e, calls) \<Rightarrow> (Inl e, calls)
                      | (Inr (BrowseMediaSource d i c t n p e ch cc th), calls) \<Rightarrow>
                          (Inr (BrowseMediaSource d i c t server_id p e ch cc th), calls))
                   else if action = ACTION_OBJECT
                   then async_browse_object h sources server_id parameters
                   else if action = ACTION_PATH
                   then
                     (case async_resolve_path (the (map_of sources server_id)) parameters of
                        (Inl e, calls) \<Rightarrow> (Inl e, calls)
                      | (Inr object_id, calls) \<Rightarrow>
                          (let (r, calls') = async_browse_object h sources server_id object_id
                           in (r, calls @ calls')))
                   else (Inl (BrowseError (''Invalid identifier '' @ ident)), [])))"

section \<open>A mock directory for the examples\<close>

text \<open>
  A server whose root has one child titled \<open>Music\<close> with object-ID 5, a track with one
  MP3 resource, and two children both titled \<open>Dup\<close>, containers that declare no child
  count. Nothing else is found by a search.
\<close>

definition mock_music :: didl_object where
  "mock_music =
     \<lparr>item_type = MusicTrack, item_id = ''5'', upnp_class = ''object.item.audioItem.musicTrack'',
      item_title = ''Music'', child_count = AttrMissing,
      res = [\<lparr>uri = Some ''/media/5.mp3'', protocol_info = Some ''http-get:*:audio/mpeg:*''\<rparr>],
      album_art_uri = AttrMissing\<rparr>"

definition mock_dup :: "string \<Rightarrow> didl_object" where
  "mock_dup oid =
     \<lparr>item_type = StorageFolder, item_id = oid, upnp_class = ''object.container.storageFolder'',
      item_title = ''Dup'', child_count = AttrNone, res = [], album_art_uri = AttrMissing\<rparr>"

definition mock_device :: dms_device where
  "mock_device =
     \<lparr>device_name = ''Mock server'', device_icon = None,
      async_browse_metadata =
        (\<lambda>oid flt. if oid = ''5'' then Inr mock_music
                    else if oid = ''8'' then Inr (mock_dup ''8'')
                    else Inl (UpnpError ''No such object'')),
      async_browse_direct_children = (\<lambda>oid flt sort. Inr []),
      async_search_directory =
        (\<lambda>oid criteria flt.
           if criteria = path_criteria ''0'' ''Music'' then Inr [mock_music]
           else if criteria = path_criteria ''0'' ''Dup'' then Inr [mock_dup ''8'', mock_dup ''9'']
           else Inr []),
      get_absolute_url =
        (\<lambda>u. ''http://192.0.2.10:8200'' @ (case u of None \<Rightarrow> [] | Some p \<Rightarrow> p))\<rparr>"

definition mock_host :: host where
  "mock_host = \<lparr>py_int = (\<lambda>text. if text = ''3'' then Some 3 else None),
                 calculate_children_class = (\<lambda>node. None)\<rparr>"

section \<open>Media renderer: the device and the entity's state (\<open>dlna_dmr/media_player.py\<close>)\<close>

text \<open>\<open>DeviceState\<close> of the device library; \<open>self._device.state\<close> may also be \<open>None\<close>.\<close>

datatype device_state = ON | PLAYING | PAUSED | IDLE

text \<open>
  The awaited methods of \<open>DmrDevice\<close> that the entity calls. The volume and the seek
  position are numbers that the entity passes on unchanged.
\<close>

datatype dmr_call =
    AsyncUpdate
  | AsyncSubscribeServices
  | AsyncSetVolumeLevel real
  | AsyncMuteVolume bool
  | AsyncPause
  | AsyncPlay
  | AsyncStop
  | AsyncSeekRelTime real
  | AsyncSetTransportUri string string
  | AsyncWaitForCanPlay
  | AsyncPrevious
  | AsyncNext

text \<open>
  A \<open>DmrDevice\<close> over a device state \<open>'d\<close> that the entity cannot see into: the
  properties the entity reads, and \<open>invoke\<close> for the awaited methods, which raises or
  returns and moves the device to a new state. The value returned is read only after
  \<open>async_subscribe_services\<close>: the granted duration, a \<open>timedelta\<close> in microseconds.
\<close>

record 'd dmr_device =
  has_volume_level :: "'d \<Rightarrow> bool"
  has_volume_mute :: "'d \<Rightarrow> bool"
  has_play :: "'d \<Rightarrow> bool"
  has_pause :: "'d \<Rightarrow> bool"
  has_stop :: "'d \<Rightarrow> bool"
  has_previous :: "'d \<Rightarrow> bool"
  has_next :: "'d \<Rightarrow> bool"
  has_play_media :: "'d \<Rightarrow> bool"
  has_seek_rel_time :: "'d \<Rightarrow> bool"
  can_pause :: "'d \<Rightarrow> bool"
  can_play :: "'d \<Rightarrow> bool"
  can_stop :: "'d \<Rightarrow> bool"
  can_seek_rel_time :: "'d \<Rightarrow> bool"
  can_previous :: "'d \<Rightarrow> bool"
  can_next :: "'d \<Rightarrow> bool"
  dmr_state :: "'d \<Rightarrow> device_state option"
  invoke :: "dmr_call \<Rightarrow> 'd \<Rightarrow> (error + int) \<times> 'd"

datatype log_level = DEBUG | ERROR

text \<open>
  The entity: \<open>_available\<close> and \<open>_subscription_renew_time\<close> (a time in microseconds, or
  \<open>None\<close>), the device behind it, the device methods called so far and the messages
  logged so far.
\<close>

record 'd entity =
  available :: bool
  subscription_renew_time :: "int option"
  dev :: 'd
  sent :: "dmr_call list"
  logged :: "(log_level \<times> string) list"

definition init_entity :: "'d \<Rightarrow> 'd entity" where
  "init_entity d =
     \<lparr>available = False, subscription_renew_time = None, dev = d, sent = [], logged = []\<rparr>"

definition await :: "'d dmr_device \<Rightarrow> dmr_call \<Rightarrow> 'd entity \<Rightarrow> (error + int) \<times> 'd entity" where
  "await dmr c s =
     (case invoke dmr c (dev s) of (r, d) \<Rightarrow> (r, s\<lparr>dev := d, sent := sent s @ [c]\<rparr>))"

definition returns_none :: "(error + int) \<times> 's \<Rightarrow> (error + unit) \<times> 's" where
  "returns_none r = (case r of (Inl e, s) \<Rightarrow> (Inl e, s) | (Inr v, s) \<Rightarrow> (Inr (), s))"

definition write_log :: "log_level \<Rightarrow> string \<Rightarrow> 'd entity \<Rightarrow> 'd entity" where
  "write_log level message s = s\<lparr>logged := logged s @ [(level, message)]\<rparr>"

text \<open>The features of the host's media player, as the set that the bit mask stands for.\<close>

datatype feature =
    SUPPORT_VOLUME_SET | SUPPORT_VOLUME_MUTE | SUPPORT_PLAY | SUPPORT_PAUSE | SUPPORT_STOP
  | SUPPORT_PREVIOUS_TRACK | SUPPORT_NEXT_TRACK | SUPPORT_PLAY_MEDIA | SUPPORT_SEEK

definition supported_features :: "'d dmr_device \<Rightarrow> 'd entity \<Rightarrow> feature set" where
  "supported_features dmr s =
     (if has_volume_level dmr (dev s) then {SUPPORT_VOLUME_SET} else {})
     \<union> (if has_volume_mute dmr (dev s) then {SUPPORT_VOLUME_MUTE} else {})
     \<union> (if has_play dmr (dev s) then {SUPPORT_PLAY} else {})
     \<union> (if has_pause dmr (dev s) then {SUPPORT_PAUSE} else {})
     \<union> (if has_stop dmr (dev s) then {SUPPORT_STOP} else {})
     \<union> (if has_previous dmr (dev s) then {SUPPORT_PREVIOUS_TRACK} else {})
     \<union> (if has_next dmr (dev s) then {SUPPORT_NEXT_TRACK} else {})
     \<union> (if has_play_media dmr (dev s) then {SUPPORT_PLAY_MEDIA} else {})
     \<union> (if has_seek_rel_time dmr (dev s) then {SUPPORT_SEEK} else {})"

section \<open>Renderer commands (\<open>catch_request_errors\<close> and the decorated methods)\<close>

text \<open>
  The decorator: \<open>asyncio.TimeoutError\<close> and \<open>aiohttp.ClientError\<close> are caught and
  logged with the name of the method, and the call returns \<open>None\<close>; any other exception
  passes through.
\<close>

definition catch_request_errors ::
  "string \<Rightarrow> ('d entity \<Rightarrow> (error + unit) \<times> 'd entity) \<Rightarrow> 'd entity
     \<Rightarrow> (error + unit) \<times> 'd entity" where
  "catch_request_errors func_name func s =
     (case func s of
        (Inl TimeoutError, s') \<Rightarrow> (Inr (), write_log ERROR (''Error during call '' @ func_name) s')
      | (Inl ClientError, s') \<Rightarrow> (Inr (), write_log ERROR (''Error during call '' @ func_name) s')
      | r \<Rightarrow> r)"

definition async_set_volume_level ::
  "'d dmr_device \<Rightarrow> real \<Rightarrow> 'd entity \<Rightarrow> (error + unit) \<times> 'd entity" where
  "async_set_volume_level dmr volume =
     catch_request_errors ''async_set_volume_level''
       (\<lambda>s. returns_none (await dmr (AsyncSetVolumeLevel volume) s))"

definition async_mute_volume ::
  "'d dmr_device \<Rightarrow> bool \<Rightarrow> 'd entity \<Rightarrow> (error + unit) \<times> 'd entity" where
  "async_mute_volume dmr mute =
     catch_request_errors ''async_mute_volume''
       (\<lambda>s. let desired_mute = mute in returns_none (await dmr (AsyncMuteVolume desired_mute) s))"

definition async_media_pause :: "'d dmr_device \<Rightarrow> 'd entity \<Rightarrow> (error + unit) \<times> 'd entity" where
  "async_media_pause dmr =
     catch_request_errors ''async_media_pause''
       (\<lambda>s. if \<not> can_pause dmr (dev s) then (Inr (), write_log DEBUG ''Cannot do Pause'' s)
            else returns_none (await dmr AsyncPause s))"

definition async_media_play :: "'d dmr_device \<Rightarrow> 'd entity \<Rightarrow> (error + unit) \<times> 'd entity" where
  "async_media_play dmr =
     catch_request_errors ''async_media_play''
       (\<lambda>s. if \<not> can_play dmr (dev s) then (Inr (), write_log DEBUG ''Cannot do Play'' s)
            else returns_none (await dmr AsyncPlay s))"

definition async_media_stop :: "'d dmr_device \<Rightarrow> 'd entity \<Rightarrow> (error + unit) \<times> 'd entity" where
  "async_media_stop dmr =
     catch_request_errors ''async_media_stop''
       (\<lambda>s. if \<not> can_stop dmr (dev s) then (Inr (), write_log DEBUG ''Cannot do Stop'' s)
            else returns_none (await dmr AsyncStop s))"

definition async_media_seek ::
  "'d dmr_device \<Rightarrow> real \<Rightarrow> 'd entity \<Rightarrow> (error + unit) \<times> 'd entity" where
  "async_media_seek dmr position =
     catch_request_errors ''async_media_seek''
       (\<lambda>s. if \<not> can_seek_rel_time dmr (dev s)
            then (Inr (), write_log DEBUG ''Cannot do Seek/rel_time'' s)
            else returns_none (await dmr (AsyncSeekRelTime position) s))"

definition async_play_media ::
  "'d dmr_device \<Rightarrow> string \<Rightarrow> string \<Rightarrow> 'd entity \<Rightarrow> (error + unit) \<times> 'd entity" where
  "async_play_media dmr media_type media_id =
     catch_request_errors ''async_play_media''
       (\<lambda>s0.
          let s1 = write_log DEBUG (''Playing media: '' @ media_type @ '', '' @ media_id) s0;
              title = ''Home Assistant'' in
          case (if can_stop dmr (dev s1) then async_media_stop dmr s1 else (Inr (), s1)) of
            (Inl e, s2) \<Rightarrow> (Inl e, s2)
          | (Inr u, s2) \<Rightarrow>
              (case await dmr (AsyncSetTransportUri media_id title) s2 of
                 (Inl e, s3) \<Rightarrow> (Inl e, s3)
               | (Inr v, s3) \<Rightarrow>
                   (case await dmr AsyncWaitForCanPlay s3 of
                      (Inl e, s4) \<Rightarrow> (Inl e, s4)
                    | (Inr w, s4) \<Rightarrow>
                        if dmr_state dmr (dev s4) = Some PLAYING then (Inr (), s4)
                        else async_media_play dmr s4)))"

definition async_media_previous_track ::
  "'d dmr_device \<Rightarrow> 'd entity \<Rightarrow> (error + unit) \<times> 'd entity" where
  "async_media_previous_track dmr =
     catch_request_errors ''async_media_previous_track''
       (\<lambda>s. if \<not> can_previous dmr (dev s)
            then (Inr (), write_log DEBUG ''Cannot do Previous'' s)
            else returns_none (await dmr AsyncPrevious s))"

definition async_media_next_track ::
  "'d dmr_device \<Rightarrow> 'd entity \<Rightarrow> (error + unit) \<times> 'd entity" where
  "async_media_next_track dmr =
     catch_request_errors ''async_media_next_track''
       (\<lambda>s. if \<not> can_next dmr (dev s) then (Inr (), write_log DEBUG ''Cannot do Next'' s)
            else returns_none (await dmr AsyncNext s))"

section \<open>Refresh (\<open>DlnaDmrEntity.async_update\<close>)\<close>

text \<open>
  \<open>timedelta / 2\<close>: a \<open>timedelta\<close> is a whole number of microseconds, and true division
  rounds the quotient to the nearest microsecond, a half to the even one.
\<close>

definition timedelta_half :: "int \<Rightarrow> int" where
  "timedelta_half t =
     (let q = t div 2; r = t mod 2 in if 2 * r > 2 \<or> (2 * r = 2 \<and> q mod 2 = 1) then q + 1 else q)"

definition seconds :: "int \<Rightarrow> int" where
  "seconds n = n * 1000000"

text \<open>
  \<open>utcnow()\<close> is read twice: \<open>now\<close> before the decision to subscribe and \<open>now'\<close> after
  the subscription has returned. Times are microseconds since the epoch.
\<close>

definition async_update ::
  "'d dmr_device \<Rightarrow> int \<Rightarrow> int \<Rightarrow> 'd entity \<Rightarrow> (error + unit) \<times> 'd entity" where
  "async_update dmr now now' s =
     (let was_available = available s in
      case await dmr AsyncUpdate s of
        (Inl TimeoutError, s1) \<Rightarrow>
          (Inr (), write_log DEBUG ''Device unavailable'' (s1\<lparr>available := False\<rparr>))
      | (Inl ClientError, s1) \<Rightarrow>
          (Inr (), write_log DEBUG ''Device unavailable'' (s1\<lparr>available := False\<rparr>))
      | (Inl e, s1) \<Rightarrow> (Inl e, s1)
      | (Inr v, s1) \<Rightarrow>
          let s2 = s1\<lparr>available := True\<rparr>;
              should_renew =
                (case subscription_renew_time s2 of None \<Rightarrow> False | Some t \<Rightarrow> t \<le> now)
          in
          if should_renew \<or> \<not> was_available \<and> available s2
          then
            (case await dmr AsyncSubscribeServices s2 of
               (Inr timeout, s3) \<Rightarrow>
                 (Inr (), s3\<lparr>subscription_renew_time := Some (now' + timedelta_half timeout)\<rparr>)
             | (Inl TimeoutError, s3) \<Rightarrow>
                 (Inr (), write_log DEBUG ''Could not (re)subscribe'' (s3\<lparr>available := False\<rparr>))
             | (Inl ClientError, s3) \<Rightarrow>
                 (Inr (), write_log DEBUG ''Could not (re)subscribe'' (s3\<lparr>available := False\<rparr>))
             | (Inl e, s3) \<Rightarrow> (Inl e, s3))
          else (Inr (), s2))"

section \<open>Shared event notifiers (\<open>dlna_dmr/eventing.py\<close>)\<close>

record EventListenAddr =
  ip :: "string option"
  port :: "int option"
  callback_url_override :: "string option"

text \<open>
  An \<open>AiohttpNotifyServer\<close> object: \<open>server_ref\<close> is its identity, the number of servers
  constructed before it. Each server owns one event handler, made with it.
\<close>

datatype notify_server = AiohttpNotifyServer
  (server_ref: nat)
  (srv_listen_port: int)
  (srv_listen_host: "string option")
  (srv_callback_url: "string option")

datatype event_handler = UpnpEventHandler nat

definition event_handler_of :: "notify_server \<Rightarrow> event_handler" where
  "event_handler_of server = UpnpEventHandler (server_ref server)"

text \<open>
  What the function reads and changes: the dictionary \<open>event_notifiers\<close> of the domain
  data, the servers constructed and those started and not yet stopped, and the listeners
  registered for the stop event, each holding the key and the server it was made for.
\<close>

record domain_data =
  event_notifiers :: "EventListenAddr \<rightharpoonup> notify_server"
  servers_created :: nat
  started :: "nat list"
  stop_listeners :: "(EventListenAddr \<times> notify_server) list"

text \<open>\<open>_create_domain_data\<close>: the dictionaries start empty.\<close>

definition create_domain_data :: domain_data where
  "create_domain_data =
     \<lparr>event_notifiers = Map.empty, servers_created = 0, started = [], stop_listeners = []\<rparr>"

text \<open>
  \<open>with data_lock:\<close> enters the context manager of the lock before its block runs.
  \<open>enter_lock\<close> is what entering does: \<open>None\<close> when the block is entered, else the
  exception raised in its place. \<open>start_server\<close> says whether binding a server fails,
  and with which exception. Once entered, the block runs as one step. A failed bind
  leaves the dictionary as it was and registers no listener.
\<close>

definition async_get_or_create_event_notifier ::
  "error option \<Rightarrow> (notify_server \<Rightarrow> error option) \<Rightarrow> string option \<Rightarrow> int option
     \<Rightarrow> string option \<Rightarrow> domain_data \<Rightarrow> (error + event_handler) \<times> domain_data" where
  "async_get_or_create_event_notifier enter_lock start_server listen_ip listen_port
       url_override data =
     (let listen_addr =
            \<lparr>ip = listen_ip, port = listen_port, callback_url_override = url_override\<rparr> in
      case enter_lock of
        Some e \<Rightarrow> (Inl e, data)
      | None \<Rightarrow>
          (case event_notifiers data listen_addr of
             Some server \<Rightarrow> (Inr (event_handler_of server), data)
           | None \<Rightarrow>
               let server =
                     AiohttpNotifyServer (servers_created data)
                       (case listen_port of None \<Rightarrow> 0 | Some p \<Rightarrow> p) listen_ip url_override;
                   data1 = data\<lparr>servers_created := Suc (servers_created data)\<rparr> in
               case start_server server of
                 Some e \<Rightarrow> (Inl e, data1)
               | None \<Rightarrow>
                   (Inr (event_handler_of server),
                    data1\<lparr>started := started data1 @ [server_ref server],
                           event_notifiers := (event_notifiers data1)(listen_addr \<mapsto> server),
                           stop_listeners := stop_listeners data1 @ [(listen_addr, server)]\<rparr>)))"

text \<open>
  The lock of the domain data is the \<open>asyncio.Lock\<close> that \<open>_create_domain_data\<close> makes.
  That class is entered with \<open>async with\<close> only: it has no \<open>__enter__\<close>, and a plain
  \<open>with\<close> on it raises before its block runs (\<open>TypeError\<close> on current Python,
  \<open>AttributeError\<close> on 3.9 and 3.10, \<open>RuntimeError\<close> on 3.8).
\<close>

definition asyncio_lock_enter :: "error option" where
  "asyncio_lock_enter =
     Some (TypeError ''Lock object does not support the context manager protocol'')"

text \<open>
  \<open>async_stop_server\<close>, the listener of one server, which enters the lock in the same
  way, and the stop event of the host, which runs every listener once.
\<close>

definition async_stop_server ::
  "error option \<Rightarrow> domain_data \<Rightarrow> EventListenAddr \<times> notify_server \<Rightarrow> domain_data" where
  "async_stop_server enter_lock data listener =
     (case enter_lock of
        Some e \<Rightarrow> data
      | None \<Rightarrow>
          data\<lparr>event_notifiers := (event_notifiers data)(fst listener := None),
                started := removeAll (server_ref (snd listener)) (started data)\<rparr>)"

definition homeassistant_stop :: "error option \<Rightarrow> domain_data \<Rightarrow> domain_data" where
  "homeassistant_stop enter_lock data =
     (foldl (async_stop_server enter_lock) data (stop_listeners data))\<lparr>stop_listeners := []\<rparr>"

text \<open>What can happen to the domain data: a request for a notifier, or the stop event.\<close>

datatype registry_event =
    GetNotifier "string option" "int option" "string option"
  | HomeAssistantStop

fun registry_step ::
  "error option \<Rightarrow> (notify_server \<Rightarrow> error option) \<Rightarrow> domain_data \<Rightarrow> registry_event
     \<Rightarrow> domain_data" where
  "registry_step enter_lock start_server data (GetNotifier listen_ip listen_port url_override) =
     snd (async_get_or_create_event_notifier enter_lock start_server listen_ip listen_port
            url_override data)"
| "registry_step enter_lock start_server data HomeAssistantStop =
     homeassistant_stop enter_lock data"

definition registry_run ::
  "error option \<Rightarrow> (notify_server \<Rightarrow> error option) \<Rightarrow> domain_data \<Rightarrow> registry_event list
     \<Rightarrow> domain_data" where
  "registry_run enter_lock start_server data events =
     foldl (registry_step enter_lock start_server) data events"

section \<open>A mock renderer for the examples\<close>

text \<open>
  A renderer that declares no capability and answers every call at once, and one that
  does not answer \<open>async_update\<close> in time. Every subscription is granted for 1800
  seconds.
\<close>

definition bare_renderer :: "unit dmr_device" where
  "bare_renderer =
     \<lparr>has_volume_level = (\<lambda>d. False), has_volume_mute = (\<lambda>d. False), has_play = (\<lambda>d. False),
      has_pause = (\<lambda>d. False), has_stop = (\<lambda>d. False), has_previous = (\<lambda>d. False),
      has_next = (\<lambda>d. False), has_play_media = (\<lambda>d. False), has_seek_rel_time = (\<lambda>d. False),
      can_pause = (\<lambda>d. False), can_play = (\<lambda>d. False), can_stop = (\<lambda>d. False),
      can_seek_rel_time = (\<lambda>d. False), can_previous = (\<lambda>d. False), can_next = (\<lambda>d. False),
      dmr_state = (\<lambda>d. None),
      invoke = (\<lambda>c d. (if c = AsyncSubscribeServices then Inr (seconds 1800) else Inr 0, d))\<rparr>"

definition silent_renderer :: "unit dmr_device" where
  "silent_renderer = bare_renderer\<lparr>invoke := (\<lambda>c d. (Inl TimeoutError, d))\<rparr>"

section \<open>The invariant of the notifier dictionary\<close>

text \<open>
  Every server stored was constructed before now, and no server is stored under two keys.
\<close>

definition registry_ok :: "domain_data \<Rightarrow> bool" where
  "registry_ok data \<longleftrightarrow>
     (\<forall>k server. event_notifiers data k = Some server \<longrightarrow> server_ref server < servers_created data)
     \<and> (\<forall>k k' server server'.
           event_notifiers data k = Some server \<and> event_notifiers data k' = Some server'
           \<and> server_ref server = server_ref server' \<longrightarrow> k = k')"

section \<open>Facts about splitting\<close>

lemma splitn_acc_no_sep:
  "sep \<notin> set s \<Longrightarrow> splitn_acc sep n acc s = [rev acc @ s]"
proof (induction s arbitrary: acc)
  case Nil
  then show ?case by simp
next
  case (Cons x xs)
  then show ?case by (cases n) auto
qed

lemma splitn_acc_at_sep:
  "sep \<notin> set a \<Longrightarrow>
   splitn_acc sep (Suc n) acc (a @ sep # rest) = (rev acc @ a) # splitn_acc sep n [] rest"
  by (induction a arbitrary: acc) auto

lemma splitn_no_sep: "sep \<notin> set s \<Longrightarrow> splitn sep n s = [s]"
  by (simp add: splitn_def splitn_acc_no_sep)

lemma splitn_one_sep:
  "sep \<notin> set a \<Longrightarrow> sep \<notin> set b \<Longrightarrow> splitn sep 2 (a @ sep # b) = [a, b]"
  using splitn_acc_at_sep [of sep a 1 "[]" b]
  by (simp add: splitn_def splitn_acc_no_sep numeral_2_eq_2)

lemma splitn_two_seps:
  "sep \<notin> set a \<Longrightarrow> sep \<notin> set b \<Longrightarrow>
   splitn sep 2 (a @ sep # b @ sep # rest) = [a, b, rest]"
proof -
  assume a: "sep \<notin> set a" and b: "sep \<notin> set b"
  have "splitn_acc sep 0 [] rest = [rest]"
    by (cases rest) simp_all
  with splitn_acc_at_sep [OF a, of 1 "[]" "b @ sep # rest"]
       splitn_acc_at_sep [OF b, of 0 "[]" rest]
  show ?thesis
    by (simp add: splitn_def numeral_2_eq_2)
qed

section \<open>Identifier parsing: the four shapes\<close>

lemma parse_empty: "async_parse_identifier [] = Inr ([], [], [])"
  by (simp add: async_parse_identifier_def)

lemma parse_server_only:
  "s \<noteq> [] \<Longrightarrow> CHR ''/'' \<notin> set s \<Longrightarrow> async_parse_identifier s = Inr (s, [], [])"
  by (simp add: async_parse_identifier_def splitn_no_sep)

lemma parse_two_segments:
  "CHR ''/'' \<notin> set a \<Longrightarrow> CHR ''/'' \<notin> set b \<Longrightarrow>
   async_parse_identifier (a @ ''/'' @ b) = Inl (BrowseError ''Invalid parameters'')"
  by (simp add: async_parse_identifier_def splitn_one_sep)

lemma parse_three_segments:
  "CHR ''/'' \<notin> set a \<Longrightarrow> CHR ''/'' \<notin> set b \<Longrightarrow>
   async_parse_identifier (a @ ''/'' @ b @ ''/'' @ rest) =
     (if b = ''object'' \<or> b = ''path'' \<or> b = ''search''
      then Inr (a, b, rest) else Inl (BrowseError ''Invalid action''))"
  by (simp add: async_parse_identifier_def splitn_two_seps
      ACTION_OBJECT_def ACTION_PATH_def ACTION_SEARCH_def)

text \<open>
  Claim C2. The empty identifier parses to three empty strings. A non-empty identifier
  without a slash is a server name alone. An identifier with exactly two segments (one
  slash) is rejected with \<open>BrowseError\<close>. With three or more segments the first two
  segments are server and action and everything after the second slash, further slashes
  included, is the parameters; that parse succeeds when the action is one of
  \<open>object\<close>, \<open>path\<close>, \<open>search\<close> and raises \<open>BrowseError\<close> otherwise.
\<close>

theorem parse_identifier_shapes:
  "async_parse_identifier [] = Inr ([], [], [])
   \<and> (s \<noteq> [] \<and> CHR ''/'' \<notin> set s \<longrightarrow> async_parse_identifier s = Inr (s, [], []))
   \<and> (CHR ''/'' \<notin> set a \<and> CHR ''/'' \<notin> set b \<longrightarrow>
        async_parse_identifier (a @ ''/'' @ b) = Inl (BrowseError ''Invalid parameters'')
        \<and> async_parse_identifier (a @ ''/'' @ b @ ''/'' @ rest) =
            (if b = ''object'' \<or> b = ''path'' \<or> b = ''search''
             then Inr (a, b, rest) else Inl (BrowseError ''Invalid action'')))"
  using parse_empty parse_server_only [of s] parse_two_segments [of a b]
    parse_three_segments [of a b rest]
  by blast

theorem parse_identifier_shapes_witness:
  "async_parse_identifier ''srv'' = Inr (''srv'', [], [])
   \<and> async_parse_identifier ''srv/object'' = Inl (BrowseError ''Invalid parameters'')
   \<and> async_parse_identifier ''srv/object/42'' = Inr (''srv'', ''object'', ''42'')
   \<and> async_parse_identifier ''srv/path/a/b/c'' = Inr (''srv'', ''path'', ''a/b/c'')
   \<and> async_parse_identifier ''srv/play/42'' = Inl (BrowseError ''Invalid action'')"
  using parse_identifier_shapes [of "''srv''" "''srv''" "''object''" "''42''"]
    parse_identifier_shapes [of "''srv''" "''srv''" "''path''" "''a/b/c''"]
    parse_identifier_shapes [of "''srv''" "''srv''" "''play''" "''42''"]
  by simp

section \<open>No servers registered\<close>

text \<open>
  Claim C10. With no server registered, resolving raises
  \<open>Unresolvable("No servers available")\<close> and browsing raises
  \<open>BrowseError("No servers available")\<close> for every identifier, malformed ones included:
  the check stands before the identifier is parsed, and no request is sent.
\<close>

theorem no_servers_before_parsing:
  "async_resolve_media [] ident = (Inl (Unresolvable ''No servers available''), [])
   \<and> async_browse_media h [] ident = (Inl (BrowseError ''No servers available''), [])"
  by (simp add: async_resolve_media_def async_browse_media_def)

text \<open>
  At the two-segment identifier \<open>srv/object\<close>: the no-servers error with no server, the
  malformed-identifier error as soon as one server is registered.
\<close>

theorem no_servers_before_parsing_witness:
  "async_resolve_media [] ''srv/object'' = (Inl (Unresolvable ''No servers available''), [])
   \<and> async_browse_media mock_host [] ''srv/object''
       = (Inl (BrowseError ''No servers available''), [])
   \<and> async_resolve_media [(''srv'', mock_device)] ''srv/object''
       = (Inl (BrowseError ''Invalid parameters''), [])
   \<and> async_browse_media mock_host [(''srv'', mock_device)] ''srv/object''
       = (Inl (BrowseError ''Invalid parameters''), [])"
  using no_servers_before_parsing [of "''srv/object''" mock_host]
    parse_two_segments [of "''srv''" "''object''"]
  by (simp add: async_resolve_media_def async_browse_media_def)

section \<open>Object resolution\<close>







section \<open>Path resolution\<close>






section \<open>Browsing the root with several servers\<close>

text \<open>
  Claim C8. A browse call whose identifier parses to an empty server and an empty action,
  with more than one server registered, is meant to return a root node with one child
  per server. The code builds that node by iterating over the dictionary itself, so each
  key, a string, is unpacked into two names: a first key of any length but two raises
  \<open>ValueError\<close>, and one of length two raises \<open>AttributeError\<close> when its second
  character is asked for a name. The call raises on the first key, sends no request and
  returns no root node.
\<close>

theorem browse_root_many_servers_raises:
  "1 < length sources \<Longrightarrow> async_parse_identifier ident = Inr ([], [], parameters) \<Longrightarrow>
   async_browse_media h sources ident =
     (Inl (if length (fst (hd sources)) = 2
           then AttributeError ''str object has no attribute name''
           else if 2 < length (fst (hd sources))
           then ValueError ''too many values to unpack (expected 2)''
           else if length (fst (hd sources)) = 1
           then ValueError ''not enough values to unpack (expected 2, got 1)''
           else ValueError ''not enough values to unpack (expected 2, got 0)''), [])"
  by (cases sources)
     (auto simp: async_browse_media_def root_node_def unpack_pair_def str_getattr_def)

theorem browse_root_many_servers_raises_witness:
  "async_browse_media mock_host [(''serverA'', mock_device), (''serverB'', mock_device)] []
     = (Inl (ValueError ''too many values to unpack (expected 2)''), [])
   \<and> async_browse_media mock_host [(''s1'', mock_device), (''s2'', mock_device)] []
     = (Inl (AttributeError ''str object has no attribute name''), [])"
  using browse_root_many_servers_raises
      [of "[(''serverA'', mock_device), (''serverB'', mock_device)]" "[]" "[]" mock_host]
    browse_root_many_servers_raises
      [of "[(''s1'', mock_device), (''s2'', mock_device)]" "[]" "[]" mock_host]
    parse_empty
  by simp

section \<open>Expandable nodes\<close>

lemma project_children_length:
  "project_children h sources server_id cs = Inr nodes \<Longrightarrow> length nodes = length cs"
  by (induction cs arbitrary: nodes) (auto split: sum.splits)

lemma didl_to_node_can_expand:
  "didl_to_node h sources server_id item projected = Inr node \<Longrightarrow>
   can_expand node \<longleftrightarrow>
     ((\<exists>cs. projected = Some cs \<and> cs \<noteq> [])
      \<or> (\<exists>text n. child_count item = AttrStr text \<and> py_int h text = Some n \<and> 0 < n))"
  by (auto simp: didl_to_node_def item_child_count_def Let_def
      split: sum.splits py_attr.splits option.splits)

text \<open>
  Where the projection returns a node, the node is expandable exactly when children
  were fetched and there is at least one, or the child count is a text that parses to a
  positive integer.
\<close>

lemma can_expand_iff:
  "didl_to_media_source h sources server_id item item_children = Inr node \<Longrightarrow>
   can_expand node \<longleftrightarrow>
     ((\<exists>cs. item_children = Some cs \<and> cs \<noteq> [])
      \<or> (\<exists>text n. child_count item = AttrStr text \<and> py_int h text = Some n \<and> 0 < n))"
  apply (cases item_children)
   apply (simp add: didl_to_media_source_def didl_to_node_can_expand)
  subgoal for cs
    apply (cases cs)
     apply (simp add: didl_to_media_source_def didl_to_node_can_expand)
    apply (auto simp: didl_to_media_source_def didl_to_node_can_expand
        split: sum.splits dest: project_children_length)
    done
  done

text \<open>
  Claim C9. A missing or unparseable child count is to count as zero, so that the
  projection never fails on it. The code catches \<open>AttributeError\<close> and \<open>ValueError\<close>
  around \<open>int(item.child_count)\<close>. A container for which the device sent no child
  count has the attribute, holding \<open>None\<close>, and \<open>int(None)\<close> raises \<open>TypeError\<close>,
  which is not caught: the projection of such an object raises, whether its children
  were fetched or not.
\<close>

theorem child_count_none_raises:
  "child_count item = AttrNone \<Longrightarrow>
   didl_to_media_source h sources server_id item None
     = Inl (TypeError ''int() argument must be a string or a number'')
   \<and> didl_to_media_source h sources server_id item (Some [])
     = Inl (TypeError ''int() argument must be a string or a number'')
   \<and> (\<exists>e. didl_to_media_source h sources server_id item item_children = Inl e)"
  by (auto simp: didl_to_media_source_def didl_to_node_def item_child_count_def
      split: option.splits list.splits sum.splits)

text \<open>
  Browsing object 8 of the mock server, a folder without a child count and without
  children: both requests succeed and the projection raises \<open>TypeError\<close>.
\<close>

theorem child_count_none_raises_witness:
  "child_count (mock_dup ''8'') = AttrNone
   \<and> didl_to_media_source mock_host [(''srv'', mock_device)] ''srv'' (mock_dup ''8'') (Some [])
       = Inl (TypeError ''int() argument must be a string or a number'')
   \<and> async_browse_media mock_host [(''srv'', mock_device)] ''srv/object/8''
       = (Inl (TypeError ''int() argument must be a string or a number''),
          [BrowseMetadata ''8'' DLNA_BROWSE_FILTER,
           BrowseDirectChildren ''8'' DLNA_BROWSE_FILTER DLNA_SORT_CRITERIA])"
proof -
  have none: "child_count (mock_dup ''8'') = AttrNone"
    by (simp add: mock_dup_def)
  note raises = child_count_none_raises
    [OF none, of mock_host "[(''srv'', mock_device)]" "''srv''" None]
  have parse: "async_parse_identifier ''srv/object/8'' = Inr (''srv'', ''object'', ''8'')"
    using parse_three_segments [of "''srv''" "''object''" "''8''"] by simp
  have "async_browse_media mock_host [(''srv'', mock_device)] ''srv/object/8''
       = (didl_to_media_source mock_host [(''srv'', mock_device)] ''srv'' (mock_dup ''8'')
            (Some []),
          [BrowseMetadata ''8'' DLNA_BROWSE_FILTER,
           BrowseDirectChildren ''8'' DLNA_BROWSE_FILTER DLNA_SORT_CRITERIA])"
    unfolding async_browse_media_def parse
    by (simp add: async_browse_object_def mock_device_def ACTION_SEARCH_def ACTION_OBJECT_def
        Let_def)
  with none raises show ?thesis by simp
qed

section \<open>Renderer commands: gating and caught errors\<close>

lemma catch_request_errors_caught:
  "fst (catch_request_errors name func s) \<noteq> Inl TimeoutError
   \<and> fst (catch_request_errors name func s) \<noteq> Inl ClientError"
  by (auto simp: catch_request_errors_def split: prod.splits sum.splits error.splits)

lemma catch_request_errors_returns:
  "fst (func s) = Inl TimeoutError \<or> fst (func s) = Inl ClientError \<Longrightarrow>
   catch_request_errors name func s
     = (Inr (), write_log ERROR (''Error during call '' @ name) (snd (func s)))"
  by (auto simp: catch_request_errors_def split: prod.splits sum.splits error.splits)

lemma catch_request_errors_passes:
  "func s = (Inr (), s') \<Longrightarrow> catch_request_errors name func s = (Inr (), s')"
  by (simp add: catch_request_errors_def)

lemma sent_write_log [simp]: "sent (write_log level message s) = sent s"
  by (simp add: write_log_def)

lemma dev_write_log [simp]: "dev (write_log level message s) = dev s"
  by (simp add: write_log_def)

lemma available_write_log [simp]: "available (write_log level message s) = available s"
  by (simp add: write_log_def)

lemma renew_write_log [simp]:
  "subscription_renew_time (write_log level message s) = subscription_renew_time s"
  by (simp add: write_log_def)

lemma sent_await: "sent (snd (await dmr c s)) = sent s @ [c]"
  by (simp add: await_def split: prod.splits)

lemma sent_catch_await:
  "sent (snd (catch_request_errors name (\<lambda>s. returns_none (await dmr c s)) s)) = sent s @ [c]"
  by (auto simp: catch_request_errors_def returns_none_def await_def
      split: prod.splits sum.splits error.splits)

lemma sent_media_play:
  "\<exists>more. sent (snd (async_media_play dmr s)) = sent s @ more"
  by (auto simp: async_media_play_def catch_request_errors_def returns_none_def await_def
      split: prod.splits sum.splits error.splits)

lemma sent_catch:
  "sent (snd (catch_request_errors name func s)) = sent (snd (func s))"
  by (auto simp: catch_request_errors_def split: prod.splits sum.splits error.splits)

lemma play_media_tail:
  assumes same: "sent s1 = sent s"
  shows "\<exists>more. sent (snd (case await dmr c s1 of
             (Inl e, s3) \<Rightarrow> (Inl e, s3)
           | (Inr v, s3) \<Rightarrow>
               (case await dmr AsyncWaitForCanPlay s3 of
                  (Inl e, s4) \<Rightarrow> (Inl e, s4)
                | (Inr w, s4) \<Rightarrow>
                    if dmr_state dmr (dev s4) = Some PLAYING then (Inr (), s4)
                    else async_media_play dmr s4))) = sent s @ c # more"
proof -
  obtain r3 s3 where a3: "await dmr c s1 = (r3, s3)"
    by fastforce
  obtain r4 s4 where a4: "await dmr AsyncWaitForCanPlay s3 = (r4, s4)"
    by fastforce
  obtain r5 s5 where a5: "async_media_play dmr s4 = (r5, s5)"
    by fastforce
  have sent3: "sent s3 = sent s @ [c]"
    using sent_await [of dmr c s1] a3 same by simp
  have sent4: "sent s4 = sent s @ [c, AsyncWaitForCanPlay]"
    using sent_await [of dmr AsyncWaitForCanPlay s3] a4 sent3 by simp
  obtain more where sent5: "sent s5 = sent s4 @ more"
    using sent_media_play [of dmr s4] a5 by auto
  show ?thesis
    using a3 a4 a5 sent3 sent4 sent5 by (cases r3; cases r4) simp_all
qed

lemma play_media_first_call:
  assumes ns: "\<not> can_stop dmr (dev s)"
  shows "take (Suc (length (sent s))) (sent (snd (async_play_media dmr media_type media_id s)))
     = sent s @ [AsyncSetTransportUri media_id ''Home Assistant'']"
proof -
  have "\<exists>more. sent (snd (async_play_media dmr media_type media_id s))
      = sent s @ AsyncSetTransportUri media_id ''Home Assistant'' # more"
    unfolding async_play_media_def sent_catch Let_def
    using ns
      play_media_tail [of "write_log DEBUG (''Playing media: '' @ media_type @ '', '' @ media_id) s"
        s dmr "AsyncSetTransportUri media_id ''Home Assistant''"]
    by simp
  then show ?thesis by auto
qed

text \<open>
  Claim C5, as the code has it. Six commands are gated by the capability check of the
  device, its \<open>can_\<close> property for the command, which the device library derives from
  the actions the device declares: pause, play, stop, seek, previous track and next
  track. When the check for the
  command is false, the command returns without error, the device and the list of calls
  sent to it are as before, and a debug note is logged; so a device that cannot seek
  receives no seek call. Setting the volume and muting are not gated in the entity: each
  calls the device once, whatever the device declares. Playing media is gated in its
  stop and play steps only: without the stop capability its first call sets the
  transport URI.
\<close>

theorem unsupported_commands_gated:
  "(\<not> can_pause dmr (dev s) \<longrightarrow>
      async_media_pause dmr s = (Inr (), write_log DEBUG ''Cannot do Pause'' s))
   \<and> (\<not> can_play dmr (dev s) \<longrightarrow>
      async_media_play dmr s = (Inr (), write_log DEBUG ''Cannot do Play'' s))
   \<and> (\<not> can_stop dmr (dev s) \<longrightarrow>
      async_media_stop dmr s = (Inr (), write_log DEBUG ''Cannot do Stop'' s))
   \<and> (\<not> can_seek_rel_time dmr (dev s) \<longrightarrow>
      async_media_seek dmr position s = (Inr (), write_log DEBUG ''Cannot do Seek/rel_time'' s))
   \<and> (\<not> can_previous dmr (dev s) \<longrightarrow>
      async_media_previous_track dmr s = (Inr (), write_log DEBUG ''Cannot do Previous'' s))
   \<and> (\<not> can_next dmr (dev s) \<longrightarrow>
      async_media_next_track dmr s = (Inr (), write_log DEBUG ''Cannot do Next'' s))
   \<and> sent (write_log DEBUG message s) = sent s \<and> dev (write_log DEBUG message s) = dev s
   \<and> sent (snd (async_set_volume_level dmr volume s)) = sent s @ [AsyncSetVolumeLevel volume]
   \<and> sent (snd (async_mute_volume dmr mute s)) = sent s @ [AsyncMuteVolume mute]
   \<and> (\<not> can_stop dmr (dev s) \<longrightarrow>
      take (Suc (length (sent s))) (sent (snd (async_play_media dmr media_type media_id s)))
        = sent s @ [AsyncSetTransportUri media_id ''Home Assistant''])"
proof (intro conjI impI)
  show "sent (snd (async_set_volume_level dmr volume s)) = sent s @ [AsyncSetVolumeLevel volume]"
    by (simp add: async_set_volume_level_def sent_catch_await)
  show "sent (snd (async_mute_volume dmr mute s)) = sent s @ [AsyncMuteVolume mute]"
    by (simp add: async_mute_volume_def sent_catch_await)
next
  assume "\<not> can_stop dmr (dev s)"
  then show "take (Suc (length (sent s))) (sent (snd (async_play_media dmr media_type media_id s)))
        = sent s @ [AsyncSetTransportUri media_id ''Home Assistant'']"
    by (rule play_media_first_call)
qed (simp_all add: async_media_pause_def async_media_play_def async_media_stop_def
    async_media_seek_def async_media_previous_track_def async_media_next_track_def
    catch_request_errors_def)

text \<open>A renderer without the seek capability: no call, no error, one debug note.\<close>

theorem unsupported_commands_gated_witness:
  "async_media_seek bare_renderer 30 (init_entity ())
     = (Inr (), (init_entity ())\<lparr>logged := [(DEBUG, ''Cannot do Seek/rel_time'')]\<rparr>)
   \<and> sent (snd (async_media_seek bare_renderer 30 (init_entity ()))) = []
   \<and> async_media_pause bare_renderer (init_entity ())
     = (Inr (), (init_entity ())\<lparr>logged := [(DEBUG, ''Cannot do Pause'')]\<rparr>)"
  using unsupported_commands_gated [of bare_renderer "init_entity ()" 30]
  by (simp add: bare_renderer_def init_entity_def write_log_def)

text \<open>
  Claim C5 as stated, for all nine commands, fails on a renderer that declares no
  capability at all: setting the volume, muting and playing media each call the device.
\<close>

theorem set_volume_not_gated_counterexample:
  "supported_features bare_renderer (init_entity ()) = {}
   \<and> async_set_volume_level bare_renderer (1 / 2) (init_entity ())
       = (Inr (), (init_entity ())\<lparr>sent := [AsyncSetVolumeLevel (1 / 2)]\<rparr>)
   \<and> async_mute_volume bare_renderer True (init_entity ())
       = (Inr (), (init_entity ())\<lparr>sent := [AsyncMuteVolume True]\<rparr>)
   \<and> sent (snd (async_play_media bare_renderer ''music'' ''http://192.0.2.7/a.mp3''
                  (init_entity ())))
       = [AsyncSetTransportUri ''http://192.0.2.7/a.mp3'' ''Home Assistant'',
          AsyncWaitForCanPlay]"
  by (simp add: supported_features_def bare_renderer_def init_entity_def
      async_set_volume_level_def async_mute_volume_def async_play_media_def
      async_media_play_def
      catch_request_errors_def returns_none_def await_def write_log_def)


section \<open>Refresh: errors and re-subscription\<close>

lemma update_fetch_failed:
  "fst (invoke dmr AsyncUpdate (dev s)) = Inl TimeoutError
     \<or> fst (invoke dmr AsyncUpdate (dev s)) = Inl ClientError \<Longrightarrow>
   async_update dmr now now' s =
     (Inr (), write_log DEBUG ''Device unavailable''
        (s\<lparr>dev := snd (invoke dmr AsyncUpdate (dev s)), sent := sent s @ [AsyncUpdate],
           available := False\<rparr>))"
  by (auto simp: async_update_def await_def split: prod.splits)

lemma update_fetch_raised:
  "invoke dmr AsyncUpdate (dev s) = (Inl e, d) \<Longrightarrow>
   sent (snd (async_update dmr now now' s)) = sent s @ [AsyncUpdate]"
  by (cases e) (auto simp: async_update_def await_def)

lemma update_no_subscribe:
  "invoke dmr AsyncUpdate (dev s) = (Inr v, d) \<Longrightarrow>
   \<not> (\<exists>t. subscription_renew_time s = Some t \<and> t \<le> now) \<Longrightarrow> available s \<Longrightarrow>
   async_update dmr now now' s =
     (Inr (), s\<lparr>dev := d, sent := sent s @ [AsyncUpdate], available := True\<rparr>)"
  by (auto simp: async_update_def await_def split: option.splits)

lemma update_subscribed:
  "invoke dmr AsyncUpdate (dev s) = (Inr v, d) \<Longrightarrow>
   (\<exists>t. subscription_renew_time s = Some t \<and> t \<le> now) \<or> \<not> available s \<Longrightarrow>
   invoke dmr AsyncSubscribeServices d = (Inr granted, d') \<Longrightarrow>
   async_update dmr now now' s =
     (Inr (), s\<lparr>dev := d', sent := sent s @ [AsyncUpdate, AsyncSubscribeServices],
               available := True,
               subscription_renew_time := Some (now' + timedelta_half granted)\<rparr>)"
  by (auto simp: async_update_def await_def split: option.splits)

lemma update_subscribe_failed:
  "invoke dmr AsyncUpdate (dev s) = (Inr v, d) \<Longrightarrow>
   (\<exists>t. subscription_renew_time s = Some t \<and> t \<le> now) \<or> \<not> available s \<Longrightarrow>
   invoke dmr AsyncSubscribeServices d = (Inl e, d') \<Longrightarrow>
   e = TimeoutError \<or> e = ClientError \<Longrightarrow>
   async_update dmr now now' s =
     (Inr (), write_log DEBUG ''Could not (re)subscribe''
        (s\<lparr>dev := d', sent := sent s @ [AsyncUpdate, AsyncSubscribeServices],
           available := False\<rparr>))"
  by (auto simp: async_update_def await_def split: option.splits)

lemma update_subscribe_raised:
  "invoke dmr AsyncUpdate (dev s) = (Inr v, d) \<Longrightarrow>
   (\<exists>t. subscription_renew_time s = Some t \<and> t \<le> now) \<or> \<not> available s \<Longrightarrow>
   invoke dmr AsyncSubscribeServices d = (Inl e, d') \<Longrightarrow>
   sent (snd (async_update dmr now now' s)) = sent s @ [AsyncUpdate, AsyncSubscribeServices]"
  by (cases e) (auto simp: async_update_def await_def split: option.splits)

lemma update_caught:
  "fst (async_update dmr now now' s) \<noteq> Inl TimeoutError
   \<and> fst (async_update dmr now now' s) \<noteq> Inl ClientError"
  by (auto simp: async_update_def Let_def split: prod.splits sum.splits error.splits)

lemma timedelta_half_even: "even t \<Longrightarrow> 2 * timedelta_half t = t"
  by (auto simp: timedelta_half_def Let_def)

lemma timedelta_half_1800: "timedelta_half (seconds 1800) = seconds 900"
  by (simp add: timedelta_half_def seconds_def Let_def)


lemma update_sent:
  "invoke dmr AsyncUpdate (dev s) = (Inr v, d) \<Longrightarrow>
   sent (snd (async_update dmr now now' s)) =
     sent s @ (if (\<exists>t. subscription_renew_time s = Some t \<and> t \<le> now) \<or> \<not> available s
               then [AsyncUpdate, AsyncSubscribeServices] else [AsyncUpdate])"
  by (auto simp: async_update_def await_def
      split: option.splits prod.splits sum.splits error.splits)

text \<open>
  Claim C6. A timeout or a client error raised by the device never leaves a renderer
  command or the refresh: none of the nine commands and not the refresh ends with one
  of the two. The decorator turns either into a normal return and logs it as an error
  with the name of the method. In the refresh, a timeout or client error of the state
  fetch, or of the subscription, ends the refresh normally with the entity marked
  unavailable.
\<close>

theorem request_errors_do_not_propagate:
  "fst (async_set_volume_level dmr volume s) \<notin> {Inl TimeoutError, Inl ClientError}
   \<and> fst (async_mute_volume dmr mute s) \<notin> {Inl TimeoutError, Inl ClientError}
   \<and> fst (async_media_pause dmr s) \<notin> {Inl TimeoutError, Inl ClientError}
   \<and> fst (async_media_play dmr s) \<notin> {Inl TimeoutError, Inl ClientError}
   \<and> fst (async_media_stop dmr s) \<notin> {Inl TimeoutError, Inl ClientError}
   \<and> fst (async_media_seek dmr position s) \<notin> {Inl TimeoutError, Inl ClientError}
   \<and> fst (async_play_media dmr media_type media_id s) \<notin> {Inl TimeoutError, Inl ClientError}
   \<and> fst (async_media_previous_track dmr s) \<notin> {Inl TimeoutError, Inl ClientError}
   \<and> fst (async_media_next_track dmr s) \<notin> {Inl TimeoutError, Inl ClientError}
   \<and> fst (async_update dmr now now' s) \<notin> {Inl TimeoutError, Inl ClientError}
   \<and> (fst (func s) = Inl TimeoutError \<or> fst (func s) = Inl ClientError \<longrightarrow>
        catch_request_errors func_name func s
          = (Inr (), write_log ERROR (''Error during call '' @ func_name) (snd (func s))))
   \<and> (fst (invoke dmr AsyncUpdate (dev s)) = Inl TimeoutError
        \<or> fst (invoke dmr AsyncUpdate (dev s)) = Inl ClientError \<longrightarrow>
        fst (async_update dmr now now' s) = Inr ()
        \<and> \<not> available (snd (async_update dmr now now' s)))
   \<and> (invoke dmr AsyncUpdate (dev s) = (Inr v, d)
        \<and> ((\<exists>t. subscription_renew_time s = Some t \<and> t \<le> now) \<or> \<not> available s)
        \<and> invoke dmr AsyncSubscribeServices d = (Inl e, d')
        \<and> (e = TimeoutError \<or> e = ClientError) \<longrightarrow>
        fst (async_update dmr now now' s) = Inr ()
        \<and> \<not> available (snd (async_update dmr now now' s)))"
proof (intro conjI impI, goal_cases)
  case 11
  then show ?case by (rule catch_request_errors_returns)
next
  case 12
  then show ?case using update_fetch_failed [of dmr s now now'] by simp
next
  case 13
  then show ?case using update_fetch_failed [of dmr s now now'] by simp
next
  case 14
  then show ?case using update_subscribe_failed [of dmr s v d now e d' now'] by simp
next
  case 15
  then show ?case using update_subscribe_failed [of dmr s v d now e d' now'] by simp
qed (insert update_caught [of dmr now now' s],
     simp_all add: async_set_volume_level_def async_mute_volume_def async_media_pause_def
       async_media_play_def async_media_stop_def async_media_seek_def async_play_media_def
       async_media_previous_track_def async_media_next_track_def
       catch_request_errors_caught)

text \<open>
  A renderer that answers nothing in time: the volume command returns and logs the
  error, the refresh returns and leaves the entity unavailable.
\<close>

theorem request_errors_do_not_propagate_witness:
  "async_set_volume_level silent_renderer (1 / 2) (init_entity ())
     = (Inr (), (init_entity ())
          \<lparr>sent := [AsyncSetVolumeLevel (1 / 2)],
           logged := [(ERROR, ''Error during call async_set_volume_level'')]\<rparr>)
   \<and> async_update silent_renderer (seconds 10) (seconds 11) ((init_entity ())\<lparr>available := True\<rparr>)
     = (Inr (), (init_entity ())
          \<lparr>sent := [AsyncUpdate], logged := [(DEBUG, ''Device unavailable'')]\<rparr>)"
proof -
  have fetch: "fst (invoke silent_renderer AsyncUpdate (dev ((init_entity ())\<lparr>available := True\<rparr>)))
      = Inl TimeoutError"
    by (simp add: silent_renderer_def)
  with request_errors_do_not_propagate
    [where dmr = silent_renderer and s = "(init_entity ())\<lparr>available := True\<rparr>"
       and now = "seconds 10" and now' = "seconds 11"]
  have "fst (async_update silent_renderer (seconds 10) (seconds 11)
               ((init_entity ())\<lparr>available := True\<rparr>)) = Inr ()"
    by blast
  moreover have "snd (async_update silent_renderer (seconds 10) (seconds 11)
               ((init_entity ())\<lparr>available := True\<rparr>))
     = (init_entity ())\<lparr>sent := [AsyncUpdate], logged := [(DEBUG, ''Device unavailable'')]\<rparr>"
    by (simp add: async_update_def await_def silent_renderer_def init_entity_def write_log_def)
  moreover have "async_set_volume_level silent_renderer (1 / 2) (init_entity ())
     = (Inr (), (init_entity ())
          \<lparr>sent := [AsyncSetVolumeLevel (1 / 2)],
           logged := [(ERROR, ''Error during call async_set_volume_level'')]\<rparr>)"
    by (simp add: async_set_volume_level_def catch_request_errors_def returns_none_def
        await_def silent_renderer_def init_entity_def write_log_def)
  ultimately show ?thesis by (simp add: prod_eq_iff)
qed

text \<open>
  Claim C7, as the code has it. A refresh whose state fetch succeeds re-subscribes
  exactly when a renewal time is stored and \<open>now\<close> has reached or passed it, or the
  entity was unavailable before (it has just become available). A refresh whose state
  fetch raises does not re-subscribe, whatever the renewal time. A re-subscription that
  grants a duration sets the renewal time to the time read after it plus half the
  duration: 900 seconds for 1800 granted, and exactly half for every duration of an even
  number of microseconds. A re-subscription that fails by timeout or client error marks
  the entity unavailable and leaves the renewal time as it was.
\<close>

theorem resubscribe_after_successful_fetch:
  "(invoke dmr AsyncUpdate (dev s) = (Inr v, d) \<longrightarrow>
      sent (snd (async_update dmr now now' s)) =
        sent s @ (if (\<exists>t. subscription_renew_time s = Some t \<and> t \<le> now) \<or> \<not> available s
                  then [AsyncUpdate, AsyncSubscribeServices] else [AsyncUpdate]))
   \<and> (invoke dmr AsyncUpdate (dev s) = (Inl e, d) \<longrightarrow>
      sent (snd (async_update dmr now now' s)) = sent s @ [AsyncUpdate])
   \<and> (invoke dmr AsyncUpdate (dev s) = (Inr v, d)
      \<and> ((\<exists>t. subscription_renew_time s = Some t \<and> t \<le> now) \<or> \<not> available s)
      \<and> invoke dmr AsyncSubscribeServices d = (Inr granted, d') \<longrightarrow>
      async_update dmr now now' s =
        (Inr (), s\<lparr>dev := d', sent := sent s @ [AsyncUpdate, AsyncSubscribeServices],
                  available := True,
                  subscription_renew_time := Some (now' + timedelta_half granted)\<rparr>))
   \<and> (invoke dmr AsyncUpdate (dev s) = (Inr v, d)
      \<and> ((\<exists>t. subscription_renew_time s = Some t \<and> t \<le> now) \<or> \<not> available s)
      \<and> invoke dmr AsyncSubscribeServices d = (Inl e', d')
      \<and> (e' = TimeoutError \<or> e' = ClientError) \<longrightarrow>
      fst (async_update dmr now now' s) = Inr ()
      \<and> \<not> available (snd (async_update dmr now now' s))
      \<and> subscription_renew_time (snd (async_update dmr now now' s))
          = subscription_renew_time s)
   \<and> timedelta_half (seconds 1800) = seconds 900
   \<and> (even granted \<longrightarrow> 2 * timedelta_half granted = granted)"
proof (intro conjI impI, goal_cases)
  case 1
  then show ?case by (rule update_sent)
next
  case 2
  then show ?case by (rule update_fetch_raised)
next
  case 3
  then show ?case using update_subscribed [of dmr s v d now granted d' now'] by blast
next
  case 4
  then show ?case using update_subscribe_failed [of dmr s v d now e' d' now'] by simp
next
  case 5
  then show ?case using update_subscribe_failed [of dmr s v d now e' d' now'] by simp
next
  case 6
  then show ?case using update_subscribe_failed [of dmr s v d now e' d' now'] by simp
next
  case 7
  show ?case by (rule timedelta_half_1800)
next
  case 8
  then show ?case by (rule timedelta_half_even)
qed

text \<open>
  The first refresh of a new entity, at second 100, with the subscription returning at
  second 101 and granted for 1800 seconds: renewal is due at second 1001.
\<close>

theorem resubscribe_after_successful_fetch_witness:
  "async_update bare_renderer (seconds 100) (seconds 101) (init_entity ())
     = (Inr (), (init_entity ())
          \<lparr>sent := [AsyncUpdate, AsyncSubscribeServices], available := True,
           subscription_renew_time := Some (seconds 1001)\<rparr>)"
proof -
  have "invoke bare_renderer AsyncUpdate (dev (init_entity ())) = (Inr 0, ())
      \<and> ((\<exists>t. subscription_renew_time (init_entity ()) = Some t \<and> t \<le> seconds 100)
          \<or> \<not> available (init_entity ()))
      \<and> invoke bare_renderer AsyncSubscribeServices () = (Inr (seconds 1800), ())"
    by (simp add: bare_renderer_def init_entity_def)
  with resubscribe_after_successful_fetch
    [where dmr = bare_renderer and s = "init_entity ()" and v = 0 and d = "()"
       and now = "seconds 100" and now' = "seconds 101" and granted = "seconds 1800"
       and d' = "()"]
  have "async_update bare_renderer (seconds 100) (seconds 101) (init_entity ()) =
        (Inr (), (init_entity ())
           \<lparr>dev := (), sent := sent (init_entity ()) @ [AsyncUpdate, AsyncSubscribeServices],
            available := True,
            subscription_renew_time := Some (seconds 101 + timedelta_half (seconds 1800))\<rparr>)"
    by blast
  then show ?thesis
    by (simp add: init_entity_def timedelta_half_def seconds_def)
qed

text \<open>
  Claim C7 as stated fails where the state fetch fails: the renewal time is stored and
  has passed, and the refresh ends after the fetch without a subscription call.
\<close>

theorem renewal_due_fetch_failed_counterexample:
  "subscription_renew_time ((init_entity ())\<lparr>available := True, subscription_renew_time := Some 0\<rparr>)
     = Some 0
   \<and> (0 :: int) \<le> seconds 10
   \<and> async_update silent_renderer (seconds 10) (seconds 11)
       ((init_entity ())\<lparr>available := True, subscription_renew_time := Some 0\<rparr>)
     = (Inr (), (init_entity ())
          \<lparr>subscription_renew_time := Some 0, sent := [AsyncUpdate],
           logged := [(DEBUG, ''Device unavailable'')]\<rparr>)"
  by (simp add: async_update_def await_def silent_renderer_def init_entity_def write_log_def
      seconds_def)

section \<open>One notifier per listen address\<close>

lemma ok_init: "registry_ok create_domain_data"
  by (simp add: registry_ok_def create_domain_data_def)

lemma ok_get:
  "registry_ok data \<Longrightarrow>
   registry_ok (snd (async_get_or_create_event_notifier enter_lock start_server a b c data))"
  unfolding registry_ok_def async_get_or_create_event_notifier_def Let_def
  by (auto split: option.splits if_splits) fastforce+

lemma ok_stop_server: "registry_ok data \<Longrightarrow> registry_ok (async_stop_server enter_lock data l)"
  unfolding registry_ok_def async_stop_server_def
  by (auto split: if_splits option.splits)

lemma ok_fold:
  "registry_ok data \<Longrightarrow> registry_ok (foldl (async_stop_server enter_lock) data ls)"
  by (induction ls arbitrary: data) (simp_all add: ok_stop_server)

lemma ok_stop: "registry_ok data \<Longrightarrow> registry_ok (homeassistant_stop enter_lock data)"
  using ok_fold [of data enter_lock "stop_listeners data"]
  by (simp add: homeassistant_stop_def registry_ok_def)

lemma ok_step:
  "registry_ok data \<Longrightarrow> registry_ok (registry_step enter_lock start_server data ev)"
  by (cases ev) (simp_all add: ok_get ok_stop)

lemma ok_run:
  "registry_ok data \<Longrightarrow> registry_ok (registry_run enter_lock start_server data events)"
  unfolding registry_run_def
  by (induction events arbitrary: data) (simp_all add: ok_step)

lemma get_entered:
  "async_get_or_create_event_notifier enter_lock start_server a b c data = (Inr handler, data')
   \<Longrightarrow> enter_lock = None"
  by (auto simp: async_get_or_create_event_notifier_def Let_def split: option.splits)

lemma get_existing:
  "event_notifiers data \<lparr>ip = a, port = b, callback_url_override = c\<rparr> = Some server \<Longrightarrow>
   async_get_or_create_event_notifier None start_server a b c data
     = (Inr (event_handler_of server), data)"
  by (simp add: async_get_or_create_event_notifier_def)

lemma get_stores:
  "async_get_or_create_event_notifier enter_lock start_server a b c data = (Inr handler, data')
   \<Longrightarrow> \<exists>server. event_notifiers data' \<lparr>ip = a, port = b, callback_url_override = c\<rparr>
                  = Some server
         \<and> event_handler_of server = handler"
  by (auto simp: async_get_or_create_event_notifier_def Let_def split: option.splits)

lemma get_keeps:
  "event_notifiers data k = Some server \<Longrightarrow>
   event_notifiers
     (snd (async_get_or_create_event_notifier enter_lock start_server a b c data)) k
     = Some server"
  by (auto simp: async_get_or_create_event_notifier_def Let_def split: option.splits)

lemma run_keeps:
  "HomeAssistantStop \<notin> set events \<Longrightarrow> event_notifiers data k = Some server \<Longrightarrow>
   event_notifiers (registry_run enter_lock start_server data events) k = Some server"
  unfolding registry_run_def
proof (induction events arbitrary: data)
  case Nil
  then show ?case by simp
next
  case (Cons ev events)
  then show ?case by (cases ev) (simp_all add: get_keeps)
qed

lemma distinct_handlers:
  "registry_ok data \<Longrightarrow> event_notifiers data k = Some server \<Longrightarrow>
   k \<noteq> \<lparr>ip = a, port = b, callback_url_override = c\<rparr> \<Longrightarrow>
   async_get_or_create_event_notifier enter_lock start_server a b c data = (Inr handler, data')
   \<Longrightarrow> handler \<noteq> event_handler_of server"
  unfolding registry_ok_def async_get_or_create_event_notifier_def Let_def event_handler_of_def
  by (auto split: option.splits) (metis less_irrefl)+

text \<open>
  What the dictionary does once the block under the lock is entered. Take any state of
  the domain data reached from its creation by requests and stop events, and a request
  there that returns a handler. After any further requests, with no stop event among
  them, a request with an equal key (listen IP, listen port and callback-URL override)
  returns the same handler and leaves the domain data as it was: no server is
  constructed or started. A request with an unequal key that returns a handler returns
  a different one.
\<close>

lemma one_notifier_per_listen_address:
  "data = registry_run enter_lock start_server create_domain_data before
   \<and> async_get_or_create_event_notifier enter_lock start_server ip1 port1 url1 data
       = (Inr handler1, data1)
   \<and> HomeAssistantStop \<notin> set between
   \<and> data2 = registry_run enter_lock start_server data1 between
   \<longrightarrow> async_get_or_create_event_notifier enter_lock start_server ip1 port1 url1 data2
         = (Inr handler1, data2)
       \<and> (\<lparr>ip = ip2, port = port2, callback_url_override = url2\<rparr>
            \<noteq> \<lparr>ip = ip1, port = port1, callback_url_override = url1\<rparr>
          \<and> async_get_or_create_event_notifier enter_lock start_server ip2 port2 url2 data2
              = (Inr handler2, data3)
          \<longrightarrow> handler2 \<noteq> handler1)"
proof (intro impI, elim conjE)
  assume data: "data = registry_run enter_lock start_server create_domain_data before"
    and first: "async_get_or_create_event_notifier enter_lock start_server ip1 port1 url1 data
        = (Inr handler1, data1)"
    and nostop: "HomeAssistantStop \<notin> set between"
    and data2: "data2 = registry_run enter_lock start_server data1 between"
  let ?k1 = "\<lparr>ip = ip1, port = port1, callback_url_override = url1\<rparr>"
  have entered: "enter_lock = None"
    using first by (rule get_entered)
  from get_stores [OF first] obtain server1 where
    stored: "event_notifiers data1 ?k1 = Some server1" and h1: "event_handler_of server1 = handler1"
    by blast
  have kept: "event_notifiers data2 ?k1 = Some server1"
    unfolding data2 using nostop stored by (rule run_keeps)
  have "registry_ok data" unfolding data by (rule ok_run [OF ok_init])
  then have "registry_ok data1"
    using ok_get [of data enter_lock start_server ip1 port1 url1] first by simp
  then have ok2: "registry_ok data2" unfolding data2 by (rule ok_run)
  show "async_get_or_create_event_notifier enter_lock start_server ip1 port1 url1 data2
         = (Inr handler1, data2)
       \<and> (\<lparr>ip = ip2, port = port2, callback_url_override = url2\<rparr> \<noteq> ?k1
          \<and> async_get_or_create_event_notifier enter_lock start_server ip2 port2 url2 data2
              = (Inr handler2, data3)
          \<longrightarrow> handler2 \<noteq> handler1)"
  proof (intro conjI impI, goal_cases)
    case 1
    show ?case using get_existing [OF kept, of start_server] h1 entered by simp
  next
    case 2
    then have ne: "?k1 \<noteq> \<lparr>ip = ip2, port = port2, callback_url_override = url2\<rparr>"
      and second: "async_get_or_create_event_notifier enter_lock start_server ip2 port2 url2
                     data2 = (Inr handler2, data3)"
      by (simp_all add: not_sym)
    from distinct_handlers [OF ok2 kept ne second] h1 show ?case by simp
  qed
qed

text \<open>
  From the empty dictionary, with the lock entered and every bind succeeding: the
  second request for 192.0.2.5:8301 gets the handler of server 0, the request for port
  8302 gets the handler of server 1, and two servers have been constructed.
\<close>

lemma one_notifier_per_listen_address_example:
  "fst (async_get_or_create_event_notifier None (\<lambda>server. None)
          (Some ''192.0.2.5'') (Some 8301) None
          (registry_run None (\<lambda>server. None) create_domain_data
             [GetNotifier (Some ''192.0.2.5'') (Some 8301) None,
              GetNotifier (Some ''192.0.2.5'') (Some 8302) None]))
     = Inr (UpnpEventHandler 0)
   \<and> fst (async_get_or_create_event_notifier None (\<lambda>server. None)
          (Some ''192.0.2.5'') (Some 8302) None
          (registry_run None (\<lambda>server. None) create_domain_data
             [GetNotifier (Some ''192.0.2.5'') (Some 8301) None,
              GetNotifier (Some ''192.0.2.5'') (Some 8302) None]))
     = Inr (UpnpEventHandler 1)
   \<and> servers_created
        (snd (async_get_or_create_event_notifier None (\<lambda>server. None)
          (Some ''192.0.2.5'') (Some 8301) None
          (registry_run None (\<lambda>server. None) create_domain_data
             [GetNotifier (Some ''192.0.2.5'') (Some 8301) None,
              GetNotifier (Some ''192.0.2.5'') (Some 8302) None]))) = 2"
  by (simp add: registry_run_def async_get_or_create_event_notifier_def
      create_domain_data_def event_handler_of_def Let_def)

text \<open>
  Claim C1. Two requests with equal keys are to return the same handler, the second
  without a second server, and requests with unequal keys different handlers. As
  written, every request enters \<open>data_lock\<close> with a plain \<open>with\<close>. When entering raises,
  as it does for the \<open>asyncio.Lock\<close> of the domain data, the request raises that
  exception before it reads the dictionary: it returns no handler, stores nothing and
  starts no server, the first request and every later one alike.
\<close>

theorem notifier_request_raises_at_lock:
  "enter_lock = Some e \<longrightarrow>
     async_get_or_create_event_notifier enter_lock start_server listen_ip listen_port
       url_override data = (Inl e, data)
     \<and> registry_run enter_lock start_server create_domain_data events = create_domain_data"
proof (intro impI conjI)
  assume raises: "enter_lock = Some e"
  then show "async_get_or_create_event_notifier enter_lock start_server listen_ip listen_port
       url_override data = (Inl e, data)"
    by (simp add: async_get_or_create_event_notifier_def)
  have step: "registry_step enter_lock start_server create_domain_data ev = create_domain_data"
    for ev
    using raises
    by (cases ev)
       (simp_all add: async_get_or_create_event_notifier_def homeassistant_stop_def
          create_domain_data_def)
  show "registry_run enter_lock start_server create_domain_data events = create_domain_data"
    unfolding registry_run_def by (induction events) (simp_all add: step)
qed

text \<open>
  Two requests for 192.0.2.5:8301 on new domain data: both raise, and the dictionary is
  still empty after them.
\<close>

theorem notifier_request_raises_at_lock_witness:
  "async_get_or_create_event_notifier asyncio_lock_enter (\<lambda>server. None)
       (Some ''192.0.2.5'') (Some 8301) None create_domain_data
     = (Inl (TypeError ''Lock object does not support the context manager protocol''),
        create_domain_data)
   \<and> async_get_or_create_event_notifier asyncio_lock_enter (\<lambda>server. None)
       (Some ''192.0.2.5'') (Some 8301) None
       (registry_run asyncio_lock_enter (\<lambda>server. None) create_domain_data
          [GetNotifier (Some ''192.0.2.5'') (Some 8301) None])
     = (Inl (TypeError ''Lock object does not support the context manager protocol''),
        create_domain_data)"
  using notifier_request_raises_at_lock
    [of asyncio_lock_enter "TypeError ''Lock object does not support the context manager protocol''"
      "\<lambda>server. None" "Some ''192.0.2.5''" "Some 8301" None create_domain_data
      "[GetNotifier (Some ''192.0.2.5'') (Some 8301) None]"]
    notifier_request_raises_at_lock
    [of asyncio_lock_enter "TypeError ''Lock object does not support the context manager protocol''"
      "\<lambda>server. None" "Some ''192.0.2.5''" "Some 8301" None
      "registry_run asyncio_lock_enter (\<lambda>server. None) create_domain_data
          [GetNotifier (Some ''192.0.2.5'') (Some 8301) None]"
      "[GetNotifier (Some ''192.0.2.5'') (Some 8301) None]"]
  by (simp add: asyncio_lock_enter_def)

end
